theory Spec2Isabelle
  imports Complex_Main "HOL-Library.Sublist"
begin

section \<open>Python strings\<close>

text \<open>
  A string is the list of its characters, a character a code point below 256.
  The string methods the program uses are written out on them:
  \<^verbatim>\<open>str.strip()\<close>, \<^verbatim>\<open>str.lower()\<close>, \<^verbatim>\<open>str.startswith\<close>, the substring test
  \<^verbatim>\<open>sub in s\<close>, \<^verbatim>\<open>sep.join(xs)\<close> and \<^verbatim>\<open>s.replace("'", "''")\<close>.
\<close>

text \<open>
  \<^verbatim>\<open>str.isspace\<close> of one character: tab to carriage return, the four
  separators, the space, next line (U+0085) and the no-break space (U+00A0).
\<close>

definition isspace :: "char \<Rightarrow> bool" where
  "isspace c = (c \<in> set [CHR 0x09, CHR 0x0A, CHR 0x0B, CHR 0x0C, CHR 0x0D,
                          CHR 0x1C, CHR 0x1D, CHR 0x1E, CHR 0x1F, CHR 0x20,
                          CHR 0x85, CHR 0xA0])"

definition strip :: "string \<Rightarrow> string" where
  "strip s = rev (dropWhile isspace (rev (dropWhile isspace s)))"

text \<open>
  \<^verbatim>\<open>str.lower()\<close> of one character: the letters A to Z and the accented
  capitals U+00C0 to U+00DE (the multiplication sign U+00D7 apart) move up by
  32; every other code point below 256 stays.
\<close>

definition lower_char :: "char \<Rightarrow> char" where
  "lower_char c =
     (let n = (of_char c :: nat) in
      if (65 \<le> n \<and> n \<le> 90) \<or> (192 \<le> n \<and> n \<le> 222 \<and> n \<noteq> 215)
      then char_of (n + 32) else c)"

definition lower :: "string \<Rightarrow> string" where
  "lower s = map lower_char s"

definition startswith :: "string \<Rightarrow> string \<Rightarrow> bool" where
  "startswith s p = prefix p s"

text \<open>\<open>contains sub s\<close> is Python's \<^verbatim>\<open>sub in s\<close> on strings.\<close>

fun contains :: "string \<Rightarrow> string \<Rightarrow> bool" where
  "contains sub [] = (sub = [])"
| "contains sub (c # cs) = (prefix sub (c # cs) \<or> contains sub cs)"

fun join_str :: "string \<Rightarrow> string list \<Rightarrow> string" where
  "join_str sep [] = []"
| "join_str sep [x] = x"
| "join_str sep (x # y # ys) = x @ sep @ join_str sep (y # ys)"

definition squote :: char where
  "squote = CHR 0x27"

definition replace_quote :: "string \<Rightarrow> string" where
  "replace_quote s = concat (map (\<lambda>c. if c = squote then [squote, squote] else [c]) s)"

section \<open>Values, errors and the built-in parsers\<close>

text \<open>
  A Python value bound to a statement or returned in a row. Floats are kept
  abstract (type \<open>'f\<close>): the program only passes them on.
\<close>

datatype 'f pyval = PyNone | PyStr string | PyInt int | PyFloat 'f | PyBool bool

text \<open>
  The exceptions the program raises or lets through: \<^verbatim>\<open>ValueError(msg)\<close> and
  psycopg2's \<^verbatim>\<open>DatabaseError\<close> with the server's message.
\<close>

datatype error = ValueError string | DatabaseError string

text \<open>
  Python's built-in \<^verbatim>\<open>int(s)\<close> and \<^verbatim>\<open>float(s)\<close> are not part of the repository;
  they are parameters. \<open>Inl msg\<close> is the \<^verbatim>\<open>ValueError(msg)\<close> they raise on a
  string they do not accept.
\<close>

record 'f python =
  py_int :: "string \<Rightarrow> string + int"
  py_float :: "string \<Rightarrow> string + 'f"

section \<open>model.py: value coercion\<close>

definition is_text_type :: "string \<Rightarrow> bool" where
  "is_text_type dt = (contains ''character'' dt \<or> contains ''text'' dt)"

definition is_integer_type :: "string \<Rightarrow> bool" where
  "is_integer_type dt = (startswith dt ''integer'' \<or> dt \<in> set [''bigint'', ''smallint''])"

definition true_tokens :: "string list" where
  "true_tokens = [''true'', ''t'', ''1'', ''yes'', ''y'']"

definition false_tokens :: "string list" where
  "false_tokens = [''false'', ''f'', ''0'', ''no'', ''n'']"

text \<open>
  \<^verbatim>\<open>Database._cast_value_from_input(value, data_type)\<close>. The raw value is a string
  or Python's \<^verbatim>\<open>None\<close>.
\<close>

definition cast_value_from_input ::
  "'f python \<Rightarrow> string option \<Rightarrow> string \<Rightarrow> error + 'f pyval" where
  "cast_value_from_input py val data_type =
     (case val of
        None \<Rightarrow> Inr PyNone
      | Some v \<Rightarrow>
          (let dt = lower data_type; s = strip v in
           if s = [] then Inr PyNone
           else if is_text_type dt then Inr (PyStr s)
           else if is_integer_type dt then
             (case py_int py s of Inl m \<Rightarrow> Inl (ValueError m) | Inr n \<Rightarrow> Inr (PyInt n))
           else if startswith dt ''numeric'' \<or> startswith dt ''double'' \<or> startswith dt ''real'' then
             (case py_float py s of Inl m \<Rightarrow> Inl (ValueError m) | Inr x \<Rightarrow> Inr (PyFloat x))
           else if dt = ''boolean'' then
             (if lower s \<in> set true_tokens then Inr (PyBool True)
              else if lower s \<in> set false_tokens then Inr (PyBool False)
              else Inl (ValueError ''Invalid boolean value''))
           else if contains ''date'' dt \<or> contains ''timestamp'' dt then Inr (PyStr s)
           else Inr (PyStr s)))"

section \<open>view.py: filter clauses\<close>

text \<open>\<^verbatim>\<open>Interface._literal_for_numeric(s)\<close>: the bare \<^verbatim>\<open>except\<close> turns any failure of
  \<^verbatim>\<open>float(s)\<close> into the literal \<^verbatim>\<open>"0"\<close>.\<close>

definition literal_for_numeric :: "'f python \<Rightarrow> string \<Rightarrow> string" where
  "literal_for_numeric py s = (case py_float py s of Inl m \<Rightarrow> ''0'' | Inr x \<Rightarrow> s)"

text \<open>\<^verbatim>\<open>Interface._quote_literal(s)\<close>.\<close>

definition quote_literal :: "string \<Rightarrow> string" where
  "quote_literal s = [squote] @ replace_quote s @ [squote]"

definition col_ref :: "string \<Rightarrow> string \<Rightarrow> string" where
  \<open>col_ref table column = ''"'' @ table @ ''"."'' @ column @ ''"''\<close>

definition is_numeric_filter_type :: "string \<Rightarrow> bool" where
  "is_numeric_filter_type dt =
     (startswith dt ''integer'' \<or>
      dt \<in> set [''bigint'', ''smallint'', ''numeric'', ''double precision'', ''real''])"

definition is_text_filter_type :: "string \<Rightarrow> bool" where
  "is_text_filter_type dt = (contains ''character'' dt \<or> dt = ''text'')"

definition is_temporal_filter_type :: "string \<Rightarrow> bool" where
  "is_temporal_filter_type dt = (contains ''date'' dt \<or> contains ''timestamp'' dt)"

text \<open>
  \<^verbatim>\<open>Interface.build_filter_clause(table, column, data_type)\<close>. The lines the user
  types are arguments: \<open>ans1\<close> is what the first \<^verbatim>\<open>input()\<close> of the chosen branch
  returns and \<open>ans2\<close> what the second returns (only the two range branches prompt
  twice). Each answer is stripped as in the source; the boolean answer is also
  lower-cased.
\<close>

definition build_filter_clause ::
  "'f python \<Rightarrow> string \<Rightarrow> string \<Rightarrow> string \<Rightarrow> string \<Rightarrow> string \<Rightarrow> string" where
  "build_filter_clause py table column data_type ans1 ans2 =
     (let dt = lower data_type; cref = col_ref table column in
      if is_numeric_filter_type dt then
        (let lo = strip ans1; hi = strip ans2;
             clauses = (if lo \<noteq> [] then [cref @ '' >= '' @ literal_for_numeric py lo] else []) @
                       (if hi \<noteq> [] then [cref @ '' <= '' @ literal_for_numeric py hi] else [])
         in if clauses \<noteq> [] then join_str '' AND '' clauses else ''TRUE'')
      else if is_text_filter_type dt then
        (let pattern = strip ans1 in
         if pattern = [] then ''TRUE'' else cref @ '' ILIKE '' @ quote_literal pattern)
      else if dt = ''boolean'' then
        (let val = lower (strip ans1) in
         if val \<in> set true_tokens then cref @ '' = TRUE''
         else if val \<in> set false_tokens then cref @ '' = FALSE''
         else ''TRUE'')
      else if is_temporal_filter_type dt then
        (let lo = strip ans1; hi = strip ans2;
             clauses = (if lo \<noteq> [] then [cref @ '' >= '' @ quote_literal lo] else []) @
                       (if hi \<noteq> [] then [cref @ '' <= '' @ quote_literal hi] else [])
         in if clauses \<noteq> [] then join_str '' AND '' clauses else ''TRUE'')
      else
        (let val = strip ans1 in
         if val = [] then ''TRUE'' else cref @ '' = '' @ quote_literal val))"

section \<open>The database session\<close>

text \<open>
  psycopg2's composable SQL objects. \<^verbatim>\<open>sql.SQL(t).format(...)\<close> yields a
  \<open>Composed\<close> list of the template's text pieces and the arguments, in order;
  \<^verbatim>\<open>sql.SQL(sep).join(xs)\<close> a \<open>Composed\<close> list with the separator between the
  elements.
\<close>

datatype composable = SQL string | Identifier string | Composed "composable list"

fun join_parts :: "composable \<Rightarrow> composable list \<Rightarrow> composable list" where
  "join_parts sep [] = []"
| "join_parts sep [x] = [x]"
| "join_parts sep (x # y # ys) = x # sep # join_parts sep (y # ys)"

definition sql_join :: "composable \<Rightarrow> composable list \<Rightarrow> composable" where
  "sql_join sep xs = Composed (join_parts sep xs)"

text \<open>
  The fixed catalog queries of model.py (their text is constant in the source;
  only the parameters vary), a composed statement, or a statement given as text.
\<close>

datatype catalog_query =
  TableExistsQuery | ColumnsQuery | PrimaryKeyQuery | ForeignKeysQuery
  | NotNullNoDefaultQuery | JoinEdgeQuery

datatype statement = Catalog catalog_query | Sql composable | Text string

text \<open>What the connection is asked to do, in order.\<close>

datatype 'f event = Execute statement "'f pyval list" | Commit | Rollback

record 'f session =
  log :: "'f event list"

text \<open>
  The database the session talks to. The catalog relations are the rows of the
  information-schema views the source reads, in the order the server
  enumerates them: \<open>db_tables\<close> holds the (schema, table) pairs of
  \<^verbatim>\<open>tables\<close>, \<open>db_columns\<close> the rows of \<^verbatim>\<open>columns\<close>, and the three constraint
  views \<^verbatim>\<open>table_constraints\<close>, \<^verbatim>\<open>key_column_usage\<close> and \<^verbatim>\<open>constraint_column_usage\<close>
  are kept as they are, one record per row, because the source joins them
  itself. \<open>db_execute\<close> is the outcome of a data-changing statement
  (\<open>Inl\<close> the server's error message, \<open>Inr\<close> the cursor's row count) and
  \<open>db_select\<close> the outcome of a query given as text (rows as ordered
  column-name/value pairs, as \<^verbatim>\<open>RealDictCursor\<close> returns them). Catalog reads
  and \<^verbatim>\<open>commit()\<close> are taken to succeed.
\<close>

record column_info =
  ci_table_schema :: string
  ci_table_name :: string
  ci_column_name :: string
  ci_ordinal_position :: nat
  ci_data_type :: string
  ci_is_nullable :: string
  ci_column_default :: "string option"
  ci_is_identity :: string

record table_constraint =
  tc_constraint_name :: string
  tc_table_schema :: string
  tc_table_name :: string
  tc_constraint_type :: string

record key_column =
  kcu_constraint_name :: string
  kcu_table_schema :: string
  kcu_table_name :: string
  kcu_column_name :: string

record constraint_column =
  ccu_constraint_name :: string
  ccu_table_schema :: string
  ccu_table_name :: string
  ccu_column_name :: string

record 'f database =
  db_tables :: "(string \<times> string) list"
  db_columns :: "column_info list"
  db_table_constraints :: "table_constraint list"
  db_key_column_usage :: "key_column list"
  db_constraint_column_usage :: "constraint_column list"
  db_execute :: "composable \<Rightarrow> 'f pyval list \<Rightarrow> string + int"
  db_select :: "string \<Rightarrow> 'f pyval list \<Rightarrow> string + (string \<times> 'f pyval) list list"

definition sent :: "statement \<Rightarrow> 'f pyval list \<Rightarrow> 'f session \<Rightarrow> 'f session" where
  "sent q params s = s\<lparr>log := log s @ [Execute q params]\<rparr>"

definition commit :: "'f session \<Rightarrow> 'f session" where
  "commit s = s\<lparr>log := log s @ [Commit]\<rparr>"

definition rollback :: "'f session \<Rightarrow> 'f session" where
  "rollback s = s\<lparr>log := log s @ [Rollback]\<rparr>"

text \<open>\<^verbatim>\<open>cur.execute(query, params)\<close> for a composed, data-changing statement.\<close>

definition execute ::
  "'f database \<Rightarrow> composable \<Rightarrow> 'f pyval list \<Rightarrow> 'f session \<Rightarrow> (error + int) \<times> 'f session" where
  "execute db q params s =
     (case db_execute db q params of
        Inl m \<Rightarrow> (Inl (DatabaseError m), sent (Sql q) params s)
      | Inr n \<Rightarrow> (Inr n, sent (Sql q) params s))"

section \<open>model.py: schema catalog\<close>

definition table_exists :: "'f database \<Rightarrow> string \<Rightarrow> 'f session \<Rightarrow> bool \<times> 'f session" where
  "table_exists db table s =
     ((''public'', table) \<in> set (db_tables db),
      sent (Catalog TableExistsQuery) [PyStr table] s)"

definition get_columns ::
  "'f database \<Rightarrow> string \<Rightarrow> 'f session \<Rightarrow> (string \<times> string) list option \<times> 'f session" where
  "get_columns db table s =
     (case table_exists db table s of (found, s1) \<Rightarrow>
        if \<not> found then (None, s1)
        else
          (Some (map (\<lambda>ci. (ci_column_name ci, ci_data_type ci))
                  (sort_key ci_ordinal_position
                     (filter (\<lambda>ci. ci_table_schema ci = ''public'' \<and> ci_table_name ci = table)
                        (db_columns db)))),
           sent (Catalog ColumnsQuery) [PyStr table] s1))"

text \<open>
  The rows of the primary-key lookup of \<^verbatim>\<open>_find_pk_column\<close>:
  \<^verbatim>\<open>table_constraints tco JOIN key_column_usage kcu ON kcu.constraint_name =
  tco.constraint_name WHERE tco.constraint_type = 'PRIMARY KEY' AND
  kcu.table_name = %s\<close>. The join is on the constraint name alone and no schema
  is tested, as in the source. The rows come in the nested-loop order of the
  FROM clause; the server may return them in another order.
\<close>

definition primary_key_rows :: "'f database \<Rightarrow> string \<Rightarrow> string list" where
  "primary_key_rows db table =
     [kcu_column_name kcu.
        tco \<leftarrow> db_table_constraints db, kcu \<leftarrow> db_key_column_usage db,
        kcu_constraint_name kcu = tc_constraint_name tco,
        tc_constraint_type tco = ''PRIMARY KEY'' \<and> kcu_table_name kcu = table]"

text \<open>\<^verbatim>\<open>Database._find_pk_column(table)\<close>: the first row of the lookup, if any.\<close>

definition find_pk_column :: "'f database \<Rightarrow> string \<Rightarrow> 'f session \<Rightarrow> string option \<times> 'f session" where
  "find_pk_column db table s =
     (case primary_key_rows db table of
        [] \<Rightarrow> (None, sent (Catalog PrimaryKeyQuery) [PyStr table] s)
      | c # rest \<Rightarrow> (Some c, sent (Catalog PrimaryKeyQuery) [PyStr table] s))"

text \<open>
  The FROM clause and the constraint-type test that the foreign-key query of
  \<^verbatim>\<open>generate_rows_sql\<close> and the join-edge query of \<^verbatim>\<open>find_join_expression\<close>
  share: \<^verbatim>\<open>table_constraints tc JOIN key_column_usage kcu ON tc.constraint_name =
  kcu.constraint_name JOIN constraint_column_usage ccu ON ccu.constraint_name =
  tc.constraint_name WHERE tc.constraint_type = 'FOREIGN KEY'\<close>, again joined on
  the constraint name alone. A row is (kcu table, kcu column, ccu table, ccu
  column).
\<close>

definition foreign_key_rows :: "'f database \<Rightarrow> (string \<times> string \<times> string \<times> string) list" where
  "foreign_key_rows db =
     [(kcu_table_name kcu, kcu_column_name kcu, ccu_table_name ccu, ccu_column_name ccu).
        tc \<leftarrow> db_table_constraints db, kcu \<leftarrow> db_key_column_usage db,
        tc_constraint_name tc = kcu_constraint_name kcu,
        ccu \<leftarrow> db_constraint_column_usage db,
        ccu_constraint_name ccu = tc_constraint_name tc,
        tc_constraint_type tc = ''FOREIGN KEY'']"

section \<open>model.py: insert, update, delete\<close>

text \<open>
  The loop of \<^verbatim>\<open>insert_entry_validated\<close> over \<^verbatim>\<open>col_types.items()\<close>, with its three
  accumulators. The dictionary \<^verbatim>\<open>col_types\<close> is the list of its items in insertion
  order (its keys are distinct); \<open>values_dict\<close> maps a column to the raw value
  supplied for it, a string or \<^verbatim>\<open>None\<close>.
\<close>

fun insert_loop ::
  "'f python \<Rightarrow> (string \<rightharpoonup> string option) \<Rightarrow> (string \<times> string) list \<Rightarrow>
   composable list \<Rightarrow> 'f pyval list \<Rightarrow> string list \<Rightarrow>
   error + (composable list \<times> 'f pyval list \<times> string list)" where
  "insert_loop py values_dict [] cols vals placeholders = Inr (cols, vals, placeholders)"
| "insert_loop py values_dict ((col, dtype) # rest) cols vals placeholders =
     (case values_dict col of
        None \<Rightarrow> insert_loop py values_dict rest cols vals placeholders
      | Some val \<Rightarrow>
          (case (if val = None \<or> val = Some [] then Inr PyNone
                 else cast_value_from_input py val dtype) of
             Inl e \<Rightarrow> Inl e
           | Inr python_val \<Rightarrow>
               insert_loop py values_dict rest
                 (cols @ [Identifier col]) (vals @ [python_val]) (placeholders @ [''%s''])))"

definition insert_query :: "string \<Rightarrow> composable list \<Rightarrow> string list \<Rightarrow> composable" where
  "insert_query table cols placeholders =
     Composed [SQL ''INSERT INTO '', Identifier table, SQL '' ('',
               sql_join (SQL '', '') cols, SQL '') VALUES ('',
               sql_join (SQL '', '') (map SQL placeholders), SQL '')'']"

definition insert_entry_validated ::
  "'f python \<Rightarrow> 'f database \<Rightarrow> string \<Rightarrow> (string \<rightharpoonup> string option) \<Rightarrow>
   (string \<times> string) list \<Rightarrow> 'f session \<Rightarrow> (error + bool) \<times> 'f session" where
  "insert_entry_validated py db table values_dict col_types s =
     (case insert_loop py values_dict col_types [] [] [] of
        Inl e \<Rightarrow> (Inl e, s)
      | Inr (cols, vals, placeholders) \<Rightarrow>
          if cols = [] then (Inl (ValueError ''No columns to insert.''), s)
          else
            (case execute db (insert_query table cols placeholders) vals s of
               (Inl e, s1) \<Rightarrow> (Inl e, s1)
             | (Inr n, s1) \<Rightarrow> (Inr True, commit s1)))"

definition update_query :: "string \<Rightarrow> string \<Rightarrow> string \<Rightarrow> composable" where
  "update_query table column id_col =
     Composed [SQL ''UPDATE '', Identifier table, SQL '' SET '', Identifier column,
               SQL '' = %s WHERE '', Identifier id_col, SQL '' = %s'']"

definition update_entry_validated ::
  "'f python \<Rightarrow> 'f database \<Rightarrow> string \<Rightarrow> string \<Rightarrow> string \<Rightarrow> string option \<Rightarrow>
   (string \<times> string) list \<Rightarrow> 'f session \<Rightarrow> (error + bool) \<times> 'f session" where
  "update_entry_validated py db table column row_id new_value col_types s =
     (case map_of col_types column of
        None \<Rightarrow> (Inl (ValueError ''Unknown column''), s)
      | Some dtype \<Rightarrow>
          (case cast_value_from_input py new_value dtype of
             Inl e \<Rightarrow> (Inl e, s)
           | Inr casted \<Rightarrow>
               (case find_pk_column db table s of
                  (None, s1) \<Rightarrow> (Inl (ValueError ''Primary key column not found for table''), s1)
                | (Some id_col, s1) \<Rightarrow>
                    (case execute db (update_query table column id_col) [casted, PyStr row_id] s1 of
                       (Inl e, s2) \<Rightarrow> (Inl e, s2)
                     | (Inr affected, s2) \<Rightarrow> (Inr (affected > 0), commit s2)))))"

definition delete_query :: "string \<Rightarrow> string \<Rightarrow> composable" where
  "delete_query table id_col =
     Composed [SQL ''DELETE FROM '', Identifier table, SQL '' WHERE '', Identifier id_col,
               SQL '' = %s'']"

definition delete_entry ::
  "'f database \<Rightarrow> string \<Rightarrow> string \<Rightarrow> 'f session \<Rightarrow> (error + bool) \<times> 'f session" where
  "delete_entry db table row_id s =
     (case find_pk_column db table s of
        (None, s1) \<Rightarrow> (Inl (ValueError ''Primary key not found''), s1)
      | (Some id_col, s1) \<Rightarrow>
          (case execute db (delete_query table id_col) [PyStr row_id] s1 of
             (Inl e, s2) \<Rightarrow> (Inl e, s2)
           | (Inr affected, s2) \<Rightarrow> (Inr (affected > 0), commit s2)))"

section \<open>model.py: synthetic data generation\<close>

text \<open>
  The generation rule chosen for one column inside the loop of
  \<^verbatim>\<open>generate_rows_sql\<close>; \<open>dt\<close> is the lower-cased type name and \<open>fk_map\<close> the
  dictionary from a foreign-key column to its (parent table, parent column).
\<close>

definition gen_expr :: "(string \<rightharpoonup> string \<times> string) \<Rightarrow> string \<Rightarrow> string \<Rightarrow> composable" where
  "gen_expr fk_map col_name dt =
     (case fk_map col_name of
        Some (ftable, fcol) \<Rightarrow>
          Composed [SQL ''(SELECT '', Identifier fcol, SQL '' FROM '', Identifier ftable,
                    SQL '' ORDER BY random() LIMIT 1)'']
      | None \<Rightarrow>
          if contains ''email'' (lower col_name) then
            SQL (''substring(md5(random()::text),1,7) || '@gmail.com'' @ [squote])
          else if startswith dt ''integer'' \<or> dt \<in> set [''bigint'', ''smallint''] then
            SQL ''floor(random()*10000)::int''
          else if startswith dt ''numeric'' \<or> dt \<in> set [''real'', ''double precision''] then
            SQL ''round(random()*10000::numeric,2)''
          else if dt = ''boolean'' then
            SQL ''(random() > 0.5)''
          else if contains ''timestamp'' dt then
            SQL ''timestamp '2020-01-01' + random() * (timestamp '2025-12-31' - timestamp '2020-01-01')''
          else if contains ''date'' dt then
            SQL ''date '2020-01-01' + (random() * 2000)::int''
          else if contains ''character'' dt \<or> contains ''text'' dt then
            SQL ''substring(md5(random()::text),1,10)''
          else
            SQL ''NULL'')"

fun generate_loop ::
  "(string \<rightharpoonup> string \<times> string) \<Rightarrow> string list \<Rightarrow> (string \<times> string) list \<Rightarrow>
   composable list \<Rightarrow> composable list \<Rightarrow> composable list \<times> composable list" where
  "generate_loop fk_map not_null_cols [] col_names select_exprs = (col_names, select_exprs)"
| "generate_loop fk_map not_null_cols ((col_name, data_type) # rest) col_names select_exprs =
     (let dt = lower data_type in
      if col_name \<notin> set not_null_cols then
        generate_loop fk_map not_null_cols rest col_names select_exprs
      else
        generate_loop fk_map not_null_cols rest
          (col_names @ [Identifier col_name]) (select_exprs @ [gen_expr fk_map col_name dt]))"

text \<open>The two catalog reads of \<^verbatim>\<open>generate_rows_sql\<close>: the foreign keys of the
  table, folded into a dictionary (a later row replaces an earlier one for the
  same column), and the names of its NOT NULL columns without a default.\<close>

definition foreign_keys_of ::
  "'f database \<Rightarrow> string \<Rightarrow> 'f session \<Rightarrow> (string \<rightharpoonup> string \<times> string) \<times> 'f session" where
  "foreign_keys_of db table s =
     (fold (\<lambda>(ct, col, ftable, fcol) fk_map. fk_map(col \<mapsto> (ftable, fcol)))
        (filter (\<lambda>(ct, col, ftable, fcol). ct = table) (foreign_key_rows db)) Map.empty,
      sent (Catalog ForeignKeysQuery) [PyStr table] s)"

definition not_null_no_default :: "column_info \<Rightarrow> bool" where
  "not_null_no_default ci = (ci_is_nullable ci = ''NO'' \<and> ci_column_default ci = None)"

definition not_null_columns :: "'f database \<Rightarrow> string \<Rightarrow> 'f session \<Rightarrow> string list \<times> 'f session" where
  "not_null_columns db table s =
     (map ci_column_name
        (filter (\<lambda>ci. ci_table_schema ci = ''public'' \<and> ci_table_name ci = table \<and>
                      not_null_no_default ci)
           (db_columns db)),
      sent (Catalog NotNullNoDefaultQuery) [PyStr table] s)"

definition generate_query :: "string \<Rightarrow> composable list \<Rightarrow> composable list \<Rightarrow> composable" where
  "generate_query table col_names select_exprs =
     Composed [SQL ''INSERT INTO '', Identifier table, SQL '' ('',
               sql_join (SQL '', '') col_names, SQL '') SELECT '',
               sql_join (SQL '', '') select_exprs, SQL '' FROM generate_series(1, %s)'']"

definition generate_rows_sql ::
  "'f database \<Rightarrow> string \<Rightarrow> int \<Rightarrow> 'f session \<Rightarrow> (error + int) \<times> 'f session" where
  "generate_rows_sql db table count s =
     (case get_columns db table s of
        (None, s1) \<Rightarrow> (Inl (ValueError ''Table not found or has no columns''), s1)
      | (Some [], s1) \<Rightarrow> (Inl (ValueError ''Table not found or has no columns''), s1)
      | (Some cols, s1) \<Rightarrow>
          (case foreign_keys_of db table s1 of (fk_map, s2) \<Rightarrow>
           case not_null_columns db table s2 of (not_null_cols, s3) \<Rightarrow>
           case generate_loop fk_map not_null_cols cols [] [] of (col_names, select_exprs) \<Rightarrow>
             if col_names = [] then
               (Inl (ValueError ''No columns to insert (all are PK/DEFAULT)''), s3)
             else
               (case execute db (generate_query table col_names select_exprs) [PyInt count] s3 of
                  (Inl e, s4) \<Rightarrow> (Inl e, rollback s4)
                | (Inr n, s4) \<Rightarrow> (Inr count, commit s4))))"

section \<open>model.py: join resolution and SELECT execution\<close>

text \<open>The rest of the WHERE clause of the join-edge lookup: the pair in either
  role.\<close>

definition connects :: "string \<Rightarrow> string \<Rightarrow> string \<times> string \<times> string \<times> string \<Rightarrow> bool" where
  "connects t1 t2 edge =
     (case edge of (child_table, child_col, parent_table, parent_col) \<Rightarrow>
        (child_table = t1 \<and> parent_table = t2) \<or> (child_table = t2 \<and> parent_table = t1))"

definition join_edges :: "'f database \<Rightarrow> string \<Rightarrow> string \<Rightarrow> (string \<times> string \<times> string \<times> string) list" where
  "join_edges db t1 t2 = filter (connects t1 t2) (foreign_key_rows db)"

definition join_condition :: "string \<times> string \<times> string \<times> string \<Rightarrow> string" where
  \<open>join_condition edge =
     (case edge of (child_table, child_col, parent_table, parent_col) \<Rightarrow>
        ''"'' @ child_table @ ''"."'' @ child_col @ ''" = "'' @ parent_table @ ''"."'' @
        parent_col @ ''"'')\<close>

definition find_join_expression ::
  "'f database \<Rightarrow> string \<Rightarrow> string \<Rightarrow> 'f session \<Rightarrow> string option \<times> 'f session" where
  "find_join_expression db t1 t2 s =
     (case join_edges db t1 t2 of
        [] \<Rightarrow> (None, sent (Catalog JoinEdgeQuery) [PyStr t1, PyStr t2, PyStr t2, PyStr t1] s)
      | r # rest \<Rightarrow>
          (Some (join_condition r),
           sent (Catalog JoinEdgeQuery) [PyStr t1, PyStr t2, PyStr t2, PyStr t1] s))"

text \<open>Both SELECT executors: the column names are the keys of the first row.\<close>

definition rows_and_columns ::
  "(string \<times> 'f pyval) list list \<Rightarrow> 'f pyval list list \<times> string list" where
  "rows_and_columns rows =
     (map (map snd) rows, (case rows of [] \<Rightarrow> [] | r # rest \<Rightarrow> map fst r))"

definition execute_raw_select ::
  "'f database \<Rightarrow> string \<Rightarrow> 'f session \<Rightarrow>
   (error + 'f pyval list list \<times> string list) \<times> 'f session" where
  "execute_raw_select db query s =
     (case db_select db query [] of
        Inl m \<Rightarrow> (Inl (DatabaseError m), sent (Text query) [] s)
      | Inr rows \<Rightarrow> (Inr (rows_and_columns rows), sent (Text query) [] s))"

definition execute_prepared_select ::
  "'f database \<Rightarrow> string \<Rightarrow> 'f pyval list \<Rightarrow> 'f session \<Rightarrow>
   (error + 'f pyval list list \<times> string list) \<times> 'f session" where
  "execute_prepared_select db template_sql params s =
     (case db_select db template_sql params of
        Inl m \<Rightarrow> (Inl (DatabaseError m), sent (Text template_sql) params s)
      | Inr rows \<Rightarrow> (Inr (rows_and_columns rows), sent (Text template_sql) params s))"

section \<open>controller.py: the FROM clause of the multi-attribute search\<close>

text \<open>
  The part of \<^verbatim>\<open>AppController.multi_attribute_search\<close> that builds the FROM clause
  from the two table names (the second may be empty) and the statement text
  from the filters. The result carries the messages shown to the user.
\<close>

definition cross_join_warning :: string where
  "cross_join_warning =
     ''No foreign key relation found between chosen tables. Using CROSS JOIN.'' @ [CHR 0x0A]"

definition search_from_clause ::
  "'f database \<Rightarrow> string \<Rightarrow> string \<Rightarrow> 'f session \<Rightarrow> (string list \<times> string) \<times> 'f session" where
  \<open>search_from_clause db table1 table2 s =
     (if table2 \<noteq> [] then
        (case find_join_expression db table1 table2 s of
           (None, s1) \<Rightarrow>
             (([cross_join_warning], ''"'' @ table1 @ ''" CROSS JOIN "'' @ table2 @ ''"''), s1)
         | (Some join_expr, s1) \<Rightarrow>
             if join_expr = [] then
               (([cross_join_warning], ''"'' @ table1 @ ''" CROSS JOIN "'' @ table2 @ ''"''), s1)
             else
               (([], ''"'' @ table1 @ ''" JOIN "'' @ table2 @ ''" ON '' @ join_expr), s1))
      else (([], ''"'' @ table1 @ ''"''), s))\<close>

definition search_query :: "string \<Rightarrow> string list \<Rightarrow> string" where
  "search_query from_clause filters =
     ''SELECT * FROM '' @ from_clause @ '' WHERE '' @
     (if filters \<noteq> [] then join_str '' AND '' filters else ''TRUE'') @ '' LIMIT 1000;''"

section \<open>Notions used in the statements\<close>

text \<open>The columns of the column-type map for which the values mapping has an
  entry, in the map's order.\<close>

definition present_columns :: "(string \<rightharpoonup> string option) \<Rightarrow> (string \<times> string) list \<Rightarrow> string list" where
  "present_columns values_dict col_types =
     map fst (filter (\<lambda>(col, dtype). values_dict col \<noteq> None) col_types)"

text \<open>The types of the constraints the catalog lists for a table name.\<close>

definition constraint_types_of :: "'f database \<Rightarrow> string \<Rightarrow> string list" where
  "constraint_types_of db table =
     map tc_constraint_type (filter (\<lambda>tc. tc_table_name tc = table) (db_table_constraints db))"

text \<open>The catalog rows of a table's NOT NULL columns without a default.\<close>

definition required_columns :: "'f database \<Rightarrow> string \<Rightarrow> column_info list" where
  "required_columns db table =
     filter (\<lambda>ci. ci_table_schema ci = ''public'' \<and> ci_table_name ci = table \<and>
                   ci_is_nullable ci = ''NO'' \<and> ci_column_default ci = None)
       (db_columns db)"

text \<open>The four catalog reads \<^verbatim>\<open>generate_rows_sql\<close> issues before it builds the
  statement.\<close>

definition generation_reads :: "string \<Rightarrow> 'f event list" where
  "generation_reads table =
     [Execute (Catalog TableExistsQuery) [PyStr table],
      Execute (Catalog ColumnsQuery) [PyStr table],
      Execute (Catalog ForeignKeysQuery) [PyStr table],
      Execute (Catalog NotNullNoDefaultQuery) [PyStr table]]"

section \<open>Example inputs\<close>

text \<open>
  Python's \<^verbatim>\<open>int\<close> and \<^verbatim>\<open>float\<close> on the strings the examples below pass to them:
  \<^verbatim>\<open>"7"\<close> and \<^verbatim>\<open>"10"\<close> parse; \<^verbatim>\<open>"abc"\<close> and \<^verbatim>\<open>"1;x"\<close> raise \<^verbatim>\<open>ValueError\<close> with
  the message that quotes the string.
\<close>

definition python_on_examples :: "real python" where
  "python_on_examples =
     \<lparr>py_int = (\<lambda>s. if s = ''7'' then Inr 7 else if s = ''10'' then Inr 10
                    else Inl (''invalid literal for int() with base 10: '' @
                              [squote] @ s @ [squote])),
      py_float = (\<lambda>s. if s = ''7'' then Inr 7 else if s = ''10'' then Inr 10
                      else Inl (''could not convert string to float: '' @
                                [squote] @ s @ [squote]))\<rparr>"

definition mk_column ::
  "string \<Rightarrow> nat \<Rightarrow> string \<Rightarrow> string \<Rightarrow> string \<Rightarrow> string option \<Rightarrow> string \<Rightarrow> column_info" where
  "mk_column table pos name dtype nullable dflt ident =
     \<lparr>ci_table_schema = ''public'', ci_table_name = table, ci_column_name = name,
      ci_ordinal_position = pos, ci_data_type = dtype, ci_is_nullable = nullable,
      ci_column_default = dflt, ci_is_identity = ident\<rparr>"

definition mk_constraint :: "string \<Rightarrow> string \<Rightarrow> string \<Rightarrow> table_constraint" where
  "mk_constraint name table ctype =
     \<lparr>tc_constraint_name = name, tc_table_schema = ''public'', tc_table_name = table,
      tc_constraint_type = ctype\<rparr>"

definition mk_key_column :: "string \<Rightarrow> string \<Rightarrow> string \<Rightarrow> key_column" where
  "mk_key_column name table column =
     \<lparr>kcu_constraint_name = name, kcu_table_schema = ''public'', kcu_table_name = table,
      kcu_column_name = column\<rparr>"

definition mk_constraint_column :: "string \<Rightarrow> string \<Rightarrow> string \<Rightarrow> constraint_column" where
  "mk_constraint_column name table column =
     \<lparr>ccu_constraint_name = name, ccu_table_schema = ''public'', ccu_table_name = table,
      ccu_column_name = column\<rparr>"

text \<open>
  A small schema. \<^verbatim>\<open>customers.id\<close> is an identity primary key (the catalog
  reports no column default for an identity column), \<^verbatim>\<open>orders.id\<close> a serial
  primary key (its default is the sequence call), \<^verbatim>\<open>orders.customer_id\<close>
  references \<^verbatim>\<open>customers.id\<close>, \<^verbatim>\<open>audit_log\<close> has no primary key, every column of
  \<^verbatim>\<open>settings\<close> is nullable or defaulted, and \<^verbatim>\<open>scratch\<close> has no columns. The
  outcome of data-changing statements is a parameter; only \<^verbatim>\<open>customers\<close> holds a
  row.
\<close>

definition shop_columns :: "column_info list" where
  "shop_columns =
     [mk_column ''customers'' 1 ''id'' ''integer'' ''NO'' None ''YES'',
      mk_column ''customers'' 2 ''name'' ''character varying'' ''NO'' None ''NO'',
      mk_column ''customers'' 3 ''phone'' ''text'' ''YES'' None ''NO'',
      mk_column ''orders'' 1 ''id'' ''integer'' ''NO'' (Some ''nextval(orders_id_seq)'') ''NO'',
      mk_column ''orders'' 2 ''customer_id'' ''integer'' ''NO'' None ''NO'',
      mk_column ''orders'' 3 ''amount'' ''numeric'' ''NO'' None ''NO'',
      mk_column ''orders'' 4 ''note'' ''text'' ''YES'' None ''NO'',
      mk_column ''orders'' 5 ''token'' ''uuid'' ''NO'' None ''NO'',
      mk_column ''audit_log'' 1 ''entry'' ''text'' ''NO'' None ''NO'',
      mk_column ''audit_log'' 2 ''reviewed'' ''boolean'' ''YES'' None ''NO'',
      mk_column ''settings'' 1 ''id'' ''integer'' ''NO'' (Some ''nextval(settings_id_seq)'') ''NO'',
      mk_column ''settings'' 2 ''note'' ''text'' ''YES'' None ''NO'']"

definition customers_query :: string where
  \<open>customers_query = ''SELECT * FROM "customers" WHERE TRUE LIMIT 1000;''\<close>

definition shop_db :: "(composable \<Rightarrow> real pyval list \<Rightarrow> string + int) \<Rightarrow> real database" where
  "shop_db outcome =
     \<lparr>db_tables = [(''public'', ''audit_log''), (''public'', ''customers''),
                   (''public'', ''orders''), (''public'', ''scratch''),
                   (''public'', ''settings'')],
      db_columns = shop_columns,
      db_table_constraints =
        [mk_constraint ''customers_pkey'' ''customers'' ''PRIMARY KEY'',
         mk_constraint ''orders_pkey'' ''orders'' ''PRIMARY KEY'',
         mk_constraint ''orders_customer_id_fkey'' ''orders'' ''FOREIGN KEY'',
         mk_constraint ''settings_pkey'' ''settings'' ''PRIMARY KEY''],
      db_key_column_usage =
        [mk_key_column ''customers_pkey'' ''customers'' ''id'',
         mk_key_column ''orders_pkey'' ''orders'' ''id'',
         mk_key_column ''orders_customer_id_fkey'' ''orders'' ''customer_id'',
         mk_key_column ''settings_pkey'' ''settings'' ''id''],
      db_constraint_column_usage =
        [mk_constraint_column ''customers_pkey'' ''customers'' ''id'',
         mk_constraint_column ''orders_pkey'' ''orders'' ''id'',
         mk_constraint_column ''orders_customer_id_fkey'' ''customers'' ''id'',
         mk_constraint_column ''settings_pkey'' ''settings'' ''id''],
      db_execute = outcome,
      db_select = (\<lambda>q params.
         if q = customers_query
         then Inr [[(''id'', PyInt 1), (''name'', PyStr ''Ann''), (''phone'', PyNone)]]
         else Inr [])\<rparr>"

text \<open>
  The constraints of a second schema, whose constraint names are unique per
  table only. \<^verbatim>\<open>orders.customer_id\<close> references \<^verbatim>\<open>customers.id\<close> and
  \<^verbatim>\<open>invoices.shipment_id\<close> references \<^verbatim>\<open>shipments.id\<close>, both through a
  constraint named \<^verbatim>\<open>fk_ref\<close>; no foreign key links \<^verbatim>\<open>orders\<close> and \<^verbatim>\<open>shipments\<close>.
  \<^verbatim>\<open>tags\<close> has the primary key \<^verbatim>\<open>ref_key\<close> on \<^verbatim>\<open>ref\<close>; \<^verbatim>\<open>notes\<close> has no primary
  key, only a UNIQUE constraint on \<^verbatim>\<open>ref\<close> that is also named \<^verbatim>\<open>ref_key\<close>.
  \<^verbatim>\<open>order_lines\<close> has the two-column primary key \<^verbatim>\<open>(order_id, line_no)\<close>.
\<close>

definition legacy_db :: "(composable \<Rightarrow> real pyval list \<Rightarrow> string + int) \<Rightarrow> real database" where
  "legacy_db outcome =
     \<lparr>db_tables = [(''public'', ''customers''), (''public'', ''invoices''),
                   (''public'', ''notes''), (''public'', ''order_lines''),
                   (''public'', ''orders''), (''public'', ''shipments''),
                   (''public'', ''tags'')],
      db_columns = [],
      db_table_constraints =
        [mk_constraint ''fk_ref'' ''orders'' ''FOREIGN KEY'',
         mk_constraint ''fk_ref'' ''invoices'' ''FOREIGN KEY'',
         mk_constraint ''ref_key'' ''tags'' ''PRIMARY KEY'',
         mk_constraint ''ref_key'' ''notes'' ''UNIQUE'',
         mk_constraint ''order_lines_pkey'' ''order_lines'' ''PRIMARY KEY''],
      db_key_column_usage =
        [mk_key_column ''fk_ref'' ''orders'' ''customer_id'',
         mk_key_column ''fk_ref'' ''invoices'' ''shipment_id'',
         mk_key_column ''ref_key'' ''tags'' ''ref'',
         mk_key_column ''ref_key'' ''notes'' ''ref'',
         mk_key_column ''order_lines_pkey'' ''order_lines'' ''order_id'',
         mk_key_column ''order_lines_pkey'' ''order_lines'' ''line_no''],
      db_constraint_column_usage =
        [mk_constraint_column ''fk_ref'' ''customers'' ''id'',
         mk_constraint_column ''fk_ref'' ''shipments'' ''id'',
         mk_constraint_column ''ref_key'' ''tags'' ''ref'',
         mk_constraint_column ''ref_key'' ''notes'' ''ref'',
         mk_constraint_column ''order_lines_pkey'' ''order_lines'' ''order_id'',
         mk_constraint_column ''order_lines_pkey'' ''order_lines'' ''line_no''],
      db_execute = outcome,
      db_select = (\<lambda>q params. Inr [])\<rparr>"

definition accepts :: "composable \<Rightarrow> real pyval list \<Rightarrow> string + int" where
  "accepts q params = Inr 1"

definition rejects :: "composable \<Rightarrow> real pyval list \<Rightarrow> string + int" where
  "rejects q params = Inl ''violates a constraint''"

definition fresh :: "real session" where
  "fresh = \<lparr>log = []\<rparr>"

text \<open>
  An insert request for \<^verbatim>\<open>customers\<close> that supplies a name and a blank phone, a
  request that supplies nothing, and the column-type maps of two tables.
\<close>

definition ann_values :: "string \<rightharpoonup> string option" where
  "ann_values = [''name'' \<mapsto> Some '' Ann'', ''phone'' \<mapsto> Some '' '']"

definition no_values :: "string \<rightharpoonup> string option" where
  "no_values = Map.empty"

definition customers_types :: "(string \<times> string) list" where
  "customers_types = [(''id'', ''integer''), (''name'', ''character varying''), (''phone'', ''text'')]"

definition audit_types :: "(string \<times> string) list" where
  "audit_types = [(''entry'', ''text''), (''reviewed'', ''boolean'')]"

section \<open>Properties\<close>

text \<open>Unfolding rules for evaluating the operations on the examples.\<close>

lemmas string_ops = strip_def isspace_def lower_def lower_char_def startswith_def
lemmas session_ops = sent_def commit_def rollback_def execute_def
lemmas shop_defs = shop_db_def shop_columns_def mk_column_def accepts_def rejects_def fresh_def
  legacy_db_def mk_constraint_def mk_key_column_def mk_constraint_column_def
lemmas catalog_ops = primary_key_rows_def foreign_key_rows_def join_edges_def connects_def

subsection \<open>Filter clauses\<close>

lemma build_filter_clause_numeric:
  assumes "is_numeric_filter_type (lower data_type)"
  shows "build_filter_clause py table column data_type lo_raw hi_raw =
    (let lo = strip lo_raw; hi = strip hi_raw; c = col_ref table column in
     if lo = [] \<and> hi = [] then ''TRUE''
     else if hi = [] then c @ '' >= '' @ literal_for_numeric py lo
     else if lo = [] then c @ '' <= '' @ literal_for_numeric py hi
     else c @ '' >= '' @ literal_for_numeric py lo @ '' AND '' @
          c @ '' <= '' @ literal_for_numeric py hi)"
  using assms by (simp add: build_filter_clause_def Let_def)

lemma build_filter_clause_temporal:
  assumes "\<not> is_numeric_filter_type (lower data_type)"
    and "\<not> is_text_filter_type (lower data_type)"
    and "lower data_type \<noteq> ''boolean''"
    and "is_temporal_filter_type (lower data_type)"
  shows "build_filter_clause py table column data_type lo_raw hi_raw =
    (let lo = strip lo_raw; hi = strip hi_raw; c = col_ref table column in
     if lo = [] \<and> hi = [] then ''TRUE''
     else if hi = [] then c @ '' >= '' @ quote_literal lo
     else if lo = [] then c @ '' <= '' @ quote_literal hi
     else c @ '' >= '' @ quote_literal lo @ '' AND '' @
          c @ '' <= '' @ quote_literal hi)"
  using assms by (simp add: build_filter_clause_def Let_def)

lemma literal_for_numeric_malformed:
  "isl (py_float py s) \<Longrightarrow> literal_for_numeric py s = ''0''"
  by (cases "py_float py s") (simp_all add: literal_for_numeric_def)

text \<open>
  Claim C7. In the filter of a numeric column (integer or decimal type name), a
  supplied lower or upper bound that \<^verbatim>\<open>float\<close> does not parse is embedded as the
  literal \<^verbatim>\<open>0\<close>: the fragment reads \<^verbatim>\<open>col >= 0\<close> or \<^verbatim>\<open>col <= 0\<close>, joined with the
  other bound's clause when that one is supplied. The builder returns a string
  in every case; there is no error result.
\<close>

theorem malformed_numeric_bound_is_zero:
  assumes "is_numeric_filter_type (lower data_type)"
  shows "(strip lo_raw \<noteq> [] \<and> isl (py_float py (strip lo_raw)) \<longrightarrow>
            build_filter_clause py table column data_type lo_raw hi_raw =
              col_ref table column @ '' >= 0'' @
              (if strip hi_raw = [] then []
               else '' AND '' @ col_ref table column @ '' <= '' @
                    literal_for_numeric py (strip hi_raw))) \<and>
         (strip hi_raw \<noteq> [] \<and> isl (py_float py (strip hi_raw)) \<longrightarrow>
            build_filter_clause py table column data_type lo_raw hi_raw =
              (if strip lo_raw = [] then []
               else col_ref table column @ '' >= '' @
                    literal_for_numeric py (strip lo_raw) @ '' AND '') @
              col_ref table column @ '' <= 0'')"
  by (simp add: build_filter_clause_numeric [OF assms] Let_def literal_for_numeric_malformed)

theorem malformed_numeric_bound_is_zero_witness:
  \<open>is_numeric_filter_type (lower ''numeric'') \<and>
   strip ''abc'' \<noteq> [] \<and> isl (py_float python_on_examples (strip ''abc'')) \<and>
   strip '' 1;x '' \<noteq> [] \<and> isl (py_float python_on_examples (strip '' 1;x '')) \<and>
   build_filter_clause python_on_examples ''orders'' ''amount'' ''numeric'' ''abc'' '' 1;x '' =
     ''"orders"."amount" >= 0 AND "orders"."amount" <= 0''\<close>
proof -
  have h: "is_numeric_filter_type (lower ''numeric'')"
    by (simp add: is_numeric_filter_type_def string_ops)
  show ?thesis
    using h malformed_numeric_bound_is_zero [OF h, where py = python_on_examples
        and lo_raw = "''abc''" and hi_raw = "'' 1;x ''" and table = "''orders''"
        and column = "''amount''"]
    by (simp add: strip_def isspace_def python_on_examples_def col_ref_def
        literal_for_numeric_def)
qed

text \<open>
  Claim C9. For a numeric column and for a temporal column (one dispatched to
  the date/timestamp branch), the predicate is \<^verbatim>\<open>TRUE\<close> when both bounds are
  empty, the single comparison when exactly one bound is supplied, and the two
  comparisons joined with \<^verbatim>\<open>AND\<close> when both are. Numeric bounds are embedded by
  \<open>literal_for_numeric\<close>, temporal bounds as quoted literals.
\<close>

theorem filter_bounds_omitted_or_joined:
  assumes "is_numeric_filter_type (lower data_type) \<or>
           (\<not> is_text_filter_type (lower data_type) \<and> lower data_type \<noteq> ''boolean'' \<and>
            is_temporal_filter_type (lower data_type))"
  shows "build_filter_clause py table column data_type lo_raw hi_raw =
    (let lit = (if is_numeric_filter_type (lower data_type)
                then literal_for_numeric py else quote_literal);
         lo = strip lo_raw; hi = strip hi_raw; c = col_ref table column in
     if lo = [] \<and> hi = [] then ''TRUE''
     else if hi = [] then c @ '' >= '' @ lit lo
     else if lo = [] then c @ '' <= '' @ lit hi
     else c @ '' >= '' @ lit lo @ '' AND '' @ c @ '' <= '' @ lit hi)"
proof (cases "is_numeric_filter_type (lower data_type)")
  case True
  then show ?thesis by (simp add: build_filter_clause_numeric Let_def)
next
  case False
  with assms show ?thesis by (simp add: build_filter_clause_temporal Let_def)
qed

theorem filter_bounds_omitted_or_joined_witness:
  \<open>(is_numeric_filter_type (lower ''DATE'') \<or>
     (\<not> is_text_filter_type (lower ''DATE'') \<and> lower ''DATE'' \<noteq> ''boolean'' \<and>
      is_temporal_filter_type (lower ''DATE''))) \<and>
   is_numeric_filter_type (lower ''numeric'') \<and>
   build_filter_clause python_on_examples ''orders'' ''amount'' ''numeric'' ''10'' [] =
     ''"orders"."amount" >= 10'' \<and>
   build_filter_clause python_on_examples ''booking'' ''day'' ''DATE'' '' '' [] = ''TRUE'' \<and>
   build_filter_clause python_on_examples ''booking'' ''day'' ''DATE'' ''2024-01-01'' [] =
     ''"booking"."day" >= '2024-01-01'' @ [squote] \<and>
   build_filter_clause python_on_examples ''booking'' ''day'' ''DATE'' [] ''2024-12-31'' =
     ''"booking"."day" <= '2024-12-31'' @ [squote] \<and>
   build_filter_clause python_on_examples ''booking'' ''day'' ''DATE'' ''2024-01-01'' ''2024-12-31'' =
     ''"booking"."day" >= '2024-01-01' AND "booking"."day" <= '2024-12-31'' @ [squote]\<close>
proof -
  have l: "lower ''DATE'' = ''date''"
    by code_simp
  have h: "is_numeric_filter_type (lower ''DATE'') \<or>
     (\<not> is_text_filter_type (lower ''DATE'') \<and> lower ''DATE'' \<noteq> ''boolean'' \<and>
      is_temporal_filter_type (lower ''DATE''))"
    by (simp add: l is_numeric_filter_type_def is_text_filter_type_def
        is_temporal_filter_type_def startswith_def)
  have n: "\<not> is_numeric_filter_type (lower ''DATE'')"
    by (simp add: l is_numeric_filter_type_def startswith_def)
  note inst = filter_bounds_omitted_or_joined [OF h, where py = python_on_examples
      and table = "''booking''" and column = "''day''"]
  have m: "is_numeric_filter_type (lower ''numeric'')"
    by (simp add: is_numeric_filter_type_def string_ops)
  have a: \<open>build_filter_clause python_on_examples ''orders'' ''amount'' ''numeric'' ''10'' [] =
     ''"orders"."amount" >= 10''\<close>
    using m filter_bounds_omitted_or_joined [OF disjI1, OF m, where py = python_on_examples
        and table = "''orders''" and column = "''amount''" and lo_raw = "''10''"
        and hi_raw = "[]"]
    by (simp add: strip_def isspace_def col_ref_def literal_for_numeric_def
        python_on_examples_def)
  show ?thesis
    using h n m a inst [of "'' ''" "[]"] inst [of "''2024-01-01''" "[]"]
      inst [of "[]" "''2024-12-31''"] inst [of "''2024-01-01''" "''2024-12-31''"]
    by (simp add: strip_def isspace_def col_ref_def quote_literal_def replace_quote_def
        squote_def)
qed

subsection \<open>SELECT execution\<close>

text \<open>
  Claim C10. When the query returns zero rows, the ad-hoc search executor and
  the prepared-report executor both return an empty row list with an empty
  column-name list; otherwise the column names are the keys of the first row.
\<close>

theorem empty_result_has_no_columns:
  "(db_select db query [] = Inr [] \<longrightarrow>
      fst (execute_raw_select db query s) = Inr ([], [])) \<and>
   (db_select db template_sql params = Inr [] \<longrightarrow>
      fst (execute_prepared_select db template_sql params s) = Inr ([], [])) \<and>
   (\<forall>r rest. db_select db query [] = Inr (r # rest) \<longrightarrow>
      fst (execute_raw_select db query s) = Inr (map (map snd) (r # rest), map fst r)) \<and>
   (\<forall>r rest. db_select db template_sql params = Inr (r # rest) \<longrightarrow>
      fst (execute_prepared_select db template_sql params s) =
        Inr (map (map snd) (r # rest), map fst r))"
  by (simp add: execute_raw_select_def execute_prepared_select_def rows_and_columns_def)

theorem empty_result_has_no_columns_witness:
  "db_select (shop_db accepts) ''SELECT 1;'' [] = Inr [] \<and>
   db_select (shop_db accepts) ''SELECT %s;'' [PyInt 1] = Inr [] \<and>
   fst (execute_raw_select (shop_db accepts) ''SELECT 1;'' fresh) = Inr ([], []) \<and>
   fst (execute_prepared_select (shop_db accepts) ''SELECT %s;'' [PyInt 1] fresh) =
     Inr ([], []) \<and>
   db_select (shop_db accepts) customers_query [] =
     Inr [[(''id'', PyInt 1), (''name'', PyStr ''Ann''), (''phone'', PyNone)]] \<and>
   fst (execute_raw_select (shop_db accepts) customers_query fresh) =
     Inr ([[PyInt 1, PyStr ''Ann'', PyNone]], [''id'', ''name'', ''phone''])"
proof -
  have e: "db_select (shop_db accepts) ''SELECT 1;'' [] = Inr []"
    "db_select (shop_db accepts) ''SELECT %s;'' [PyInt 1] = Inr []"
    by (simp_all add: shop_db_def customers_query_def)
  have r: "db_select (shop_db accepts) customers_query [] =
     Inr [[(''id'', PyInt 1), (''name'', PyStr ''Ann''), (''phone'', PyNone)]]"
    by (simp add: shop_db_def)
  from e r
    empty_result_has_no_columns [of "shop_db accepts" "''SELECT 1;''" fresh
      "''SELECT %s;''" "[PyInt 1]"]
    empty_result_has_no_columns [of "shop_db accepts" customers_query fresh
      "''SELECT %s;''" "[PyInt 1]"]
  show ?thesis by simp
qed

subsection \<open>Join resolution\<close>

lemma join_edges_rows:
  "e \<in> set (join_edges db t1 t2) \<longleftrightarrow>
     connects t1 t2 e \<and>
     (\<exists>tc \<in> set (db_table_constraints db). \<exists>kcu \<in> set (db_key_column_usage db).
        \<exists>ccu \<in> set (db_constraint_column_usage db).
          tc_constraint_type tc = ''FOREIGN KEY'' \<and>
          kcu_constraint_name kcu = tc_constraint_name tc \<and>
          ccu_constraint_name ccu = tc_constraint_name tc \<and>
          e = (kcu_table_name kcu, kcu_column_name kcu, ccu_table_name ccu,
               ccu_column_name ccu))"
  unfolding join_edges_def foreign_key_rows_def
  by (simp, safe) (fastforce+)

lemma find_join_expression_rows:
  "(join_edges db t1 t2 = [] \<longrightarrow> fst (find_join_expression db t1 t2 s) = None) \<and>
   (\<forall>e rest. join_edges db t1 t2 = e # rest \<longrightarrow>
      fst (find_join_expression db t1 t2 s) = Some (join_condition e))"
  by (simp add: find_join_expression_def)

lemma join_condition_nonempty: "join_condition e \<noteq> []"
  by (cases e) (simp add: join_condition_def)

lemma search_from_clause_cases:
  assumes "t2 \<noteq> []"
  shows "fst (search_from_clause db t1 t2 s) =
    (case fst (find_join_expression db t1 t2 s) of
       None \<Rightarrow> ([cross_join_warning], [CHR 0x22] @ t1 @ [CHR 0x22] @ '' CROSS JOIN '' @ [CHR 0x22] @ t2 @ [CHR 0x22])
     | Some c \<Rightarrow> ([], [CHR 0x22] @ t1 @ [CHR 0x22] @ '' JOIN '' @ [CHR 0x22] @ t2 @ [CHR 0x22] @ '' ON '' @ c))"
  using assms
  by (cases "join_edges db t1 t2")
     (simp_all add: search_from_clause_def find_join_expression_def join_condition_nonempty)

text \<open>
  On the first schema the lookup does what is expected of it: the foreign key
  \<^verbatim>\<open>orders.customer_id -> customers.id\<close> is found from either side and gives
  the inner join; \<^verbatim>\<open>customers\<close> and \<^verbatim>\<open>settings\<close> have no edge and give the cross
  join with the warning.
\<close>

lemma related_and_unrelated_tables:
  \<open>fst (find_join_expression (shop_db accepts) ''customers'' ''orders'' fresh) =
     Some ''"orders"."customer_id" = "customers"."id"'' \<and>
   fst (find_join_expression (shop_db accepts) ''orders'' ''customers'' fresh) =
     Some ''"orders"."customer_id" = "customers"."id"'' \<and>
   fst (search_from_clause (shop_db accepts) ''customers'' ''orders'' fresh) =
     ([], ''"customers" JOIN "orders" ON "orders"."customer_id" = "customers"."id"'') \<and>
   fst (find_join_expression (shop_db accepts) ''customers'' ''settings'' fresh) = None \<and>
   fst (search_from_clause (shop_db accepts) ''customers'' ''settings'' fresh) =
     ([cross_join_warning], ''"customers" CROSS JOIN "settings"'')\<close>
  by (simp add: search_from_clause_def find_join_expression_def join_condition_def
      catalog_ops shop_defs)

text \<open>
  Claim C8. The claim is that tables with no foreign-key edge between them get
  the cross join. On the second schema \<^verbatim>\<open>orders\<close> and \<^verbatim>\<open>shipments\<close> have none, yet
  the lookup, which matches the three catalog views on the constraint name
  alone, pairs the key column of one \<^verbatim>\<open>fk_ref\<close> with the referenced column of
  the other: \<open>find_join_expression\<close> returns a condition and the search emits
  an inner join on it, with no warning.
\<close>

theorem same_named_constraints_join_unrelated_tables:
  \<open>fst (find_join_expression (legacy_db accepts) ''orders'' ''shipments'' fresh) =
     Some ''"orders"."customer_id" = "shipments"."id"'' \<and>
   fst (search_from_clause (legacy_db accepts) ''orders'' ''shipments'' fresh) =
     ([], ''"orders" JOIN "shipments" ON "orders"."customer_id" = "shipments"."id"'')\<close>
  by (simp add: search_from_clause_def find_join_expression_def join_condition_def
      catalog_ops shop_defs)

subsection \<open>Insert\<close>

lemma strip_Nil: "strip [] = []"
  by (simp add: strip_def)

lemma cast_blank:
  "val = None \<or> val = Some [] \<Longrightarrow> cast_value_from_input py val dtype = Inr PyNone"
  by (auto simp: cast_value_from_input_def strip_Nil)

lemma insert_loop_columns:
  "insert_loop py values_dict items cols vals phs = Inr (cols', vals', phs') \<Longrightarrow>
   cols' = cols @ map Identifier (present_columns values_dict items) \<and>
   length vals' = length vals + length (present_columns values_dict items) \<and>
   phs' = phs @ replicate (length (present_columns values_dict items)) ''%s''"
proof (induction items arbitrary: cols vals phs)
  case Nil
  then show ?case by (simp add: present_columns_def)
next
  case (Cons item items)
  obtain col dtype where item: "item = (col, dtype)" by (cases item)
  show ?case
  proof (cases "values_dict col")
    case None
    with Cons item show ?thesis by (simp add: present_columns_def)
  next
    case (Some val)
    with Cons.prems item obtain v where
      rest: "insert_loop py values_dict items (cols @ [Identifier col]) (vals @ [v])
               (phs @ [''%s'']) = Inr (cols', vals', phs')"
      by (auto split: sum.splits)
    from Cons.IH [OF rest] Some item show ?thesis
      by (simp add: present_columns_def replicate_app_Cons_same)
  qed
qed

lemma insert_loop_nothing_present:
  "present_columns values_dict items = [] \<Longrightarrow>
   insert_loop py values_dict items cols vals phs = Inr (cols, vals, phs)"
proof (induction items)
  case Nil
  then show ?case by simp
next
  case (Cons item items)
  then show ?case
    by (cases item) (auto simp: present_columns_def split: if_splits)
qed

lemma insert_loop_values:
  "insert_loop py values_dict items cols vals phs = Inr (cols', vals', phs') \<Longrightarrow>
   \<exists>vs. vals' = vals @ vs \<and>
     list_all2 (\<lambda>item v. \<exists>raw. values_dict (fst item) = Some raw \<and>
                  cast_value_from_input py raw (snd item) = Inr v)
       (filter (\<lambda>(col, dtype). values_dict col \<noteq> None) items) vs"
proof (induction items arbitrary: cols vals phs)
  case Nil
  then show ?case by simp
next
  case (Cons item items)
  obtain col dtype where item: "item = (col, dtype)" by (cases item)
  show ?case
  proof (cases "values_dict col")
    case None
    with Cons item show ?thesis by simp
  next
    case (Some val)
    with Cons.prems item obtain v where
      v: "(if val = None \<or> val = Some [] then Inr PyNone
           else cast_value_from_input py val dtype) = Inr v" and
      rest: "insert_loop py values_dict items (cols @ [Identifier col]) (vals @ [v])
               (phs @ [''%s'']) = Inr (cols', vals', phs')"
      by (auto split: sum.splits)
    from v have c: "cast_value_from_input py val dtype = Inr v"
      by (auto simp: cast_blank split: if_splits)
    from Cons.IH [OF rest] obtain vs where
      vs: "vals' = (vals @ [v]) @ vs" and
      all: "list_all2 (\<lambda>item v. \<exists>raw. values_dict (fst item) = Some raw \<and>
                  cast_value_from_input py raw (snd item) = Inr v)
              (filter (\<lambda>(col, dtype). values_dict col \<noteq> None) items) vs"
      by blast
    from vs all c Some item show ?thesis
      by (intro exI [of _ "v # vs"]) simp
  qed
qed

lemma insert_entry_validated_log:
  assumes "insert_entry_validated py db table values_dict col_types s = (r, s')"
  shows "(\<exists>e. r = Inl e \<and> s' = s) \<or>
         (\<exists>cols vals phs.
            insert_loop py values_dict col_types [] [] [] = Inr (cols, vals, phs) \<and>
            cols \<noteq> [] \<and>
            log s' = log s @ Execute (Sql (insert_query table cols phs)) vals #
                       (case r of Inl e \<Rightarrow> [] | Inr ok \<Rightarrow> [Commit]))"
  using assms
  by (auto simp: insert_entry_validated_def session_ops
           split: sum.splits prod.splits if_splits)

text \<open>
  Claim C4, as amended. The INSERT names exactly the columns of the column-type
  map that have an entry in the values mapping, in the map's order, with one
  placeholder each, and binds to each the cast of the value supplied for it;
  a blank value does not remove the column, it is bound as the cast's null.
  If no column has an entry the operation fails with
  \<^verbatim>\<open>ValueError("No columns to insert.")\<close> and the session is untouched. Any
  other failure before execution (a cast error) also leaves the session
  untouched.
\<close>

theorem insert_columns_are_present_columns:
  assumes "insert_entry_validated py db table values_dict col_types s = (r, s')"
  shows "(present_columns values_dict col_types = [] \<longrightarrow>
            r = Inl (ValueError ''No columns to insert.'') \<and> s' = s) \<and>
         ((\<exists>e. r = Inl e \<and> s' = s) \<or>
          (\<exists>vals. length vals = length (present_columns values_dict col_types) \<and>
             list_all2 (\<lambda>item v. \<exists>given. values_dict (fst item) = Some given \<and>
                          cast_value_from_input py given (snd item) = Inr v)
               (filter (\<lambda>(col, dtype). values_dict col \<noteq> None) col_types) vals \<and>
             log s' = log s @
               Execute (Sql (insert_query table
                               (map Identifier (present_columns values_dict col_types))
                               (replicate (length (present_columns values_dict col_types)) ''%s'')))
                       vals #
               (case r of Inl e \<Rightarrow> [] | Inr ok \<Rightarrow> [Commit])))"
proof
  show "present_columns values_dict col_types = [] \<longrightarrow>
          r = Inl (ValueError ''No columns to insert.'') \<and> s' = s"
    using assms
    by (auto simp: insert_entry_validated_def insert_loop_nothing_present)
next
  from insert_entry_validated_log [OF assms]
  show "(\<exists>e. r = Inl e \<and> s' = s) \<or>
          (\<exists>vals. length vals = length (present_columns values_dict col_types) \<and>
             list_all2 (\<lambda>item v. \<exists>given. values_dict (fst item) = Some given \<and>
                          cast_value_from_input py given (snd item) = Inr v)
               (filter (\<lambda>(col, dtype). values_dict col \<noteq> None) col_types) vals \<and>
             log s' = log s @
               Execute (Sql (insert_query table
                               (map Identifier (present_columns values_dict col_types))
                               (replicate (length (present_columns values_dict col_types)) ''%s'')))
                       vals #
               (case r of Inl e \<Rightarrow> [] | Inr ok \<Rightarrow> [Commit]))"
  proof
    assume "\<exists>e. r = Inl e \<and> s' = s"
    then show ?thesis by blast
  next
    assume "\<exists>cols vals phs.
            insert_loop py values_dict col_types [] [] [] = Inr (cols, vals, phs) \<and>
            cols \<noteq> [] \<and>
            log s' = log s @ Execute (Sql (insert_query table cols phs)) vals #
                       (case r of Inl e \<Rightarrow> [] | Inr ok \<Rightarrow> [Commit])"
    then obtain cols vals phs where
      l: "insert_loop py values_dict col_types [] [] [] = Inr (cols, vals, phs)" and
      g: "log s' = log s @ Execute (Sql (insert_query table cols phs)) vals #
                       (case r of Inl e \<Rightarrow> [] | Inr ok \<Rightarrow> [Commit])"
      by blast
    from insert_loop_values [OF l] insert_loop_columns [OF l] g show ?thesis
      by (intro disjI2 exI [of _ vals]) simp
  qed
qed

lemma ann_insert:
  "insert_entry_validated python_on_examples (shop_db accepts) ''customers'' ann_values
     customers_types fresh =
   (Inr True,
    \<lparr>log = [Execute (Sql (insert_query ''customers'' [Identifier ''name'', Identifier ''phone'']
                            [''%s'', ''%s'']))
              [PyStr ''Ann'', PyNone],
            Commit]\<rparr>)"
  by (simp add: insert_entry_validated_def ann_values_def customers_types_def
      cast_value_from_input_def is_text_type_def string_ops session_ops shop_defs)

theorem insert_columns_are_present_columns_witness:
  "insert_entry_validated python_on_examples (shop_db accepts) ''customers'' ann_values
     customers_types fresh =
   (Inr True,
    \<lparr>log = [Execute (Sql (insert_query ''customers'' [Identifier ''name'', Identifier ''phone'']
                            [''%s'', ''%s'']))
              [PyStr ''Ann'', PyNone],
            Commit]\<rparr>) \<and>
   present_columns ann_values customers_types = [''name'', ''phone''] \<and>
   present_columns no_values customers_types = [] \<and>
   insert_entry_validated python_on_examples (shop_db accepts) ''customers'' no_values
     customers_types fresh = (Inl (ValueError ''No columns to insert.''), fresh)"
proof -
  obtain r s' where
    e: "insert_entry_validated python_on_examples (shop_db accepts) ''customers'' no_values
          customers_types fresh = (r, s')"
    by (cases "insert_entry_validated python_on_examples (shop_db accepts) ''customers''
          no_values customers_types fresh")
  have p: "present_columns no_values customers_types = []"
    by (simp add: present_columns_def no_values_def customers_types_def)
  have q: "present_columns ann_values customers_types = [''name'', ''phone'']"
    by (simp add: present_columns_def ann_values_def customers_types_def)
  from insert_columns_are_present_columns [OF e] p
  have "r = Inl (ValueError ''No columns to insert.'') \<and> s' = fresh"
    by blast
  with e p q ann_insert show ?thesis by simp
qed

text \<open>
  Claim C4 as stated fails: the phone entry is blank, its cast result is
  \<^verbatim>\<open>None\<close>, and the column is still in the INSERT, bound to NULL.
\<close>

theorem blank_value_is_inserted_as_null:
  "cast_value_from_input python_on_examples (Some '' '') ''text'' = Inr PyNone \<and>
   ann_values ''phone'' = Some (Some '' '') \<and>
   insert_entry_validated python_on_examples (shop_db accepts) ''customers'' ann_values
     customers_types fresh =
   (Inr True,
    \<lparr>log = [Execute (Sql (insert_query ''customers'' [Identifier ''name'', Identifier ''phone'']
                            [''%s'', ''%s'']))
              [PyStr ''Ann'', PyNone],
            Commit]\<rparr>)"
  by (simp add: insert_entry_validated_def ann_values_def customers_types_def
      cast_value_from_input_def is_text_type_def string_ops session_ops shop_defs)

subsection \<open>Update and delete\<close>

lemma primary_key_rows_none:
  assumes "\<not> (\<exists>tco \<in> set (db_table_constraints db). \<exists>kcu \<in> set (db_key_column_usage db).
              tc_constraint_type tco = ''PRIMARY KEY'' \<and>
              kcu_constraint_name kcu = tc_constraint_name tco \<and>
              kcu_table_name kcu = table)"
  shows "primary_key_rows db table = []"
  using assms unfolding primary_key_rows_def
  by (simp, safe) (fastforce+)

lemma find_pk_column_none:
  assumes "\<not> (\<exists>tco \<in> set (db_table_constraints db). \<exists>kcu \<in> set (db_key_column_usage db).
              tc_constraint_type tco = ''PRIMARY KEY'' \<and>
              kcu_constraint_name kcu = tc_constraint_name tco \<and>
              kcu_table_name kcu = table)"
  shows "find_pk_column db table s = (None, sent (Catalog PrimaryKeyQuery) [PyStr table] s)"
  by (simp add: find_pk_column_def primary_key_rows_none [OF assms])

lemma find_pk_column_session:
  "snd (find_pk_column db table s) = sent (Catalog PrimaryKeyQuery) [PyStr table] s"
  by (simp add: find_pk_column_def split: list.splits prod.splits)

lemma find_pk_column_eq:
  "find_pk_column db table s =
     (fst (find_pk_column db table s), sent (Catalog PrimaryKeyQuery) [PyStr table] s)"
  by (simp add: find_pk_column_def split: list.splits prod.splits)

lemma update_cast_failure:
  assumes "map_of col_types column = Some dtype"
    and "cast_value_from_input py new_value dtype = Inl e"
  shows "update_entry_validated py db table column row_id new_value col_types s = (Inl e, s)"
  using assms by (simp add: update_entry_validated_def)

lemma update_statement:
  assumes "map_of col_types column = Some dtype"
    and "cast_value_from_input py new_value dtype = Inr casted"
    and "fst (find_pk_column db table s) = Some id_col"
  shows "log (snd (update_entry_validated py db table column row_id new_value col_types s)) =
           log s @ [Execute (Catalog PrimaryKeyQuery) [PyStr table],
                    Execute (Sql (update_query table column id_col)) [casted, PyStr row_id]] @
           (if isl (fst (update_entry_validated py db table column row_id new_value col_types s))
            then [] else [Commit])"
proof -
  from assms(3) have "find_pk_column db table s =
      (Some id_col, sent (Catalog PrimaryKeyQuery) [PyStr table] s)"
    using find_pk_column_eq [of db table s] by simp
  with assms(1,2) show ?thesis
    by (simp add: update_entry_validated_def session_ops split: sum.splits)
qed

text \<open>
  Claim C5, as amended. Take a table for which the primary-key lookup finds no
  column: no \<^verbatim>\<open>key_column_usage\<close> row with that table name carries the
  constraint name of a PRIMARY KEY constraint. A
  delete request fails with \<^verbatim>\<open>ValueError("Primary key not found")\<close>, and an
  update request whose column is in the column-type map and whose value casts
  fails with \<^verbatim>\<open>ValueError("Primary key column not found for table")\<close>; in both
  the only statement sent is the primary-key lookup. An update whose column is
  unknown or whose value does not cast fails with that error before the
  lookup. So every update request on such a table fails, and sends nothing but
  possibly the lookup: no UPDATE or DELETE is executed and nothing is
  committed.
\<close>

theorem missing_primary_key_rejected:
  assumes "\<not> (\<exists>tco \<in> set (db_table_constraints db). \<exists>kcu \<in> set (db_key_column_usage db).
              tc_constraint_type tco = ''PRIMARY KEY'' \<and>
              kcu_constraint_name kcu = tc_constraint_name tco \<and>
              kcu_table_name kcu = table)"
  shows "delete_entry db table row_id s =
           (Inl (ValueError ''Primary key not found''),
            sent (Catalog PrimaryKeyQuery) [PyStr table] s) \<and>
         (\<forall>dtype casted.
            map_of col_types column = Some dtype \<and>
            cast_value_from_input py new_value dtype = Inr casted \<longrightarrow>
            update_entry_validated py db table column row_id new_value col_types s =
              (Inl (ValueError ''Primary key column not found for table''),
               sent (Catalog PrimaryKeyQuery) [PyStr table] s)) \<and>
         (map_of col_types column = None \<longrightarrow>
            update_entry_validated py db table column row_id new_value col_types s =
              (Inl (ValueError ''Unknown column''), s)) \<and>
         (\<forall>dtype e.
            map_of col_types column = Some dtype \<and>
            cast_value_from_input py new_value dtype = Inl e \<longrightarrow>
            update_entry_validated py db table column row_id new_value col_types s =
              (Inl e, s)) \<and>
         isl (fst (update_entry_validated py db table column row_id new_value col_types s)) \<and>
         (snd (update_entry_validated py db table column row_id new_value col_types s) = s \<or>
          snd (update_entry_validated py db table column row_id new_value col_types s) =
            sent (Catalog PrimaryKeyQuery) [PyStr table] s)"
  using find_pk_column_none [OF assms, of s]
  by (auto simp: delete_entry_def update_entry_validated_def split: option.splits sum.splits)

theorem missing_primary_key_rejected_witness:
  "\<not> (\<exists>tco \<in> set (db_table_constraints (shop_db accepts)).
        \<exists>kcu \<in> set (db_key_column_usage (shop_db accepts)).
        tc_constraint_type tco = ''PRIMARY KEY'' \<and>
        kcu_constraint_name kcu = tc_constraint_name tco \<and>
        kcu_table_name kcu = ''audit_log'') \<and>
   constraint_types_of (shop_db accepts) ''audit_log'' = [] \<and>
   primary_key_rows (shop_db accepts) ''audit_log'' = [] \<and>
   delete_entry (shop_db accepts) ''audit_log'' ''1'' fresh =
     (Inl (ValueError ''Primary key not found''),
      \<lparr>log = [Execute (Catalog PrimaryKeyQuery) [PyStr ''audit_log'']]\<rparr>) \<and>
   map_of audit_types ''reviewed'' = Some ''boolean'' \<and>
   cast_value_from_input python_on_examples (Some ''yes'') ''boolean'' = Inr (PyBool True) \<and>
   update_entry_validated python_on_examples (shop_db accepts) ''audit_log'' ''reviewed'' ''1''
     (Some ''yes'') audit_types fresh =
     (Inl (ValueError ''Primary key column not found for table''),
      \<lparr>log = [Execute (Catalog PrimaryKeyQuery) [PyStr ''audit_log'']]\<rparr>)"
proof -
  have h: "\<not> (\<exists>tco \<in> set (db_table_constraints (shop_db accepts)).
              \<exists>kcu \<in> set (db_key_column_usage (shop_db accepts)).
              tc_constraint_type tco = ''PRIMARY KEY'' \<and>
              kcu_constraint_name kcu = tc_constraint_name tco \<and>
              kcu_table_name kcu = ''audit_log'')"
    by (simp add: shop_defs)
  have t: "constraint_types_of (shop_db accepts) ''audit_log'' = []"
    "primary_key_rows (shop_db accepts) ''audit_log'' = []"
    by (simp_all add: constraint_types_of_def catalog_ops shop_defs)
  have m: "map_of audit_types ''reviewed'' = Some ''boolean''"
    by (simp add: audit_types_def)
  have c: "cast_value_from_input python_on_examples (Some ''yes'') ''boolean'' = Inr (PyBool True)"
    by (simp add: cast_value_from_input_def is_text_type_def is_integer_type_def string_ops
        true_tokens_def)
  from missing_primary_key_rejected [OF h, of "''1''" fresh audit_types "''reviewed''"
      python_on_examples "Some ''yes''"] h t m c
  show ?thesis
    by (simp add: sent_def fresh_def)
qed

text \<open>
  Claim C5 as stated fails in three ways. \<^verbatim>\<open>audit_log\<close> has no primary key, yet
  an update with a value that is not a boolean fails with the cast's error,
  not with the missing-primary-key error: the column check and the cast come
  first. \<^verbatim>\<open>order_lines\<close> has no single-column primary key, only the pair
  \<^verbatim>\<open>(order_id, line_no)\<close>; the lookup returns both columns, the first is taken
  and the DELETE is executed and committed. \<^verbatim>\<open>notes\<close> has no primary key at all,
  only a UNIQUE constraint that shares its name with the primary key of
  \<^verbatim>\<open>tags\<close>; the lookup, which joins on the constraint name alone, returns its
  column and the DELETE is executed and committed.
\<close>

theorem tables_without_single_column_key_not_always_rejected:
  "primary_key_rows (shop_db accepts) ''audit_log'' = [] \<and>
   update_entry_validated python_on_examples (shop_db accepts) ''audit_log'' ''reviewed'' ''1''
     (Some ''maybe'') audit_types fresh =
     (Inl (ValueError ''Invalid boolean value''), fresh) \<and>
   constraint_types_of (legacy_db accepts) ''order_lines'' = [''PRIMARY KEY''] \<and>
   primary_key_rows (legacy_db accepts) ''order_lines'' = [''order_id'', ''line_no''] \<and>
   delete_entry (legacy_db accepts) ''order_lines'' ''7'' fresh =
     (Inr True,
      \<lparr>log = [Execute (Catalog PrimaryKeyQuery) [PyStr ''order_lines''],
              Execute (Sql (delete_query ''order_lines'' ''order_id'')) [PyStr ''7''],
              Commit]\<rparr>) \<and>
   constraint_types_of (legacy_db accepts) ''notes'' = [''UNIQUE''] \<and>
   primary_key_rows (legacy_db accepts) ''notes'' = [''ref''] \<and>
   delete_entry (legacy_db accepts) ''notes'' ''7'' fresh =
     (Inr True,
      \<lparr>log = [Execute (Catalog PrimaryKeyQuery) [PyStr ''notes''],
              Execute (Sql (delete_query ''notes'' ''ref'')) [PyStr ''7''],
              Commit]\<rparr>)"
  by (simp add: constraint_types_of_def catalog_ops shop_defs session_ops
      find_pk_column_def delete_entry_def update_entry_validated_def audit_types_def
      cast_value_from_input_def is_text_type_def is_integer_type_def string_ops
      true_tokens_def false_tokens_def)

subsection \<open>Value coercion\<close>

lemma cast_text:
  "is_text_type (lower data_type) \<Longrightarrow>
   cast_value_from_input py (Some raw) data_type =
     (if strip raw = [] then Inr PyNone else Inr (PyStr (strip raw)))"
  by (simp add: cast_value_from_input_def)

text \<open>
  Claim C6, as amended. For a column whose type name contains \<^verbatim>\<open>character\<close> or
  \<^verbatim>\<open>text\<close>, the cast returns the input with leading and trailing whitespace
  removed (all that \<^verbatim>\<open>str.strip()\<close> removes, the no-break space included), and
  the null value when nothing remains. Insert and update obtain
  every value they bind from this cast: each value bound by the INSERT is the
  cast of the value supplied for its column, and an update either fails with
  the cast's error before anything is sent or binds the cast result in its
  UPDATE.
\<close>

theorem text_cast_strips_and_feeds_writes:
  "(is_text_type (lower data_type) \<longrightarrow>
      cast_value_from_input py (Some raw) data_type =
        (if strip raw = [] then Inr PyNone else Inr (PyStr (strip raw)))) \<and>
   (\<forall>r s' q vals rest.
      insert_entry_validated py db table values_dict col_types s = (r, s') \<and>
      log s' = log s @ Execute q vals # rest \<longrightarrow>
      list_all2 (\<lambda>item v. \<exists>given. values_dict (fst item) = Some given \<and>
                   cast_value_from_input py given (snd item) = Inr v)
        (filter (\<lambda>(col, dtype). values_dict col \<noteq> None) col_types) vals) \<and>
   (\<forall>dtype. map_of col_types column = Some dtype \<longrightarrow>
      (case cast_value_from_input py new_value dtype of
         Inl e \<Rightarrow>
           update_entry_validated py db table column row_id new_value col_types s = (Inl e, s)
       | Inr casted \<Rightarrow>
           (\<forall>id_col. fst (find_pk_column db table s) = Some id_col \<longrightarrow>
              log (snd (update_entry_validated py db table column row_id new_value col_types s)) =
                log s @ [Execute (Catalog PrimaryKeyQuery) [PyStr table],
                         Execute (Sql (update_query table column id_col))
                           [casted, PyStr row_id]] @
                (if isl (fst (update_entry_validated py db table column row_id new_value
                                col_types s))
                 then [] else [Commit]))))"
proof (intro conjI allI impI)
  assume "is_text_type (lower data_type)"
  then show "cast_value_from_input py (Some raw) data_type =
        (if strip raw = [] then Inr PyNone else Inr (PyStr (strip raw)))"
    by (rule cast_text)
next
  fix r s' q vals rest
  assume a: "insert_entry_validated py db table values_dict col_types s = (r, s') \<and>
      log s' = log s @ Execute q vals # rest"
  then have ne: "s' \<noteq> s" by auto
  from insert_entry_validated_log [of py db table values_dict col_types s r s'] a ne
  obtain cols vals' phs where
    l: "insert_loop py values_dict col_types [] [] [] = Inr (cols, vals', phs)" and
    g: "log s' = log s @ Execute (Sql (insert_query table cols phs)) vals' #
                       (case r of Inl e \<Rightarrow> [] | Inr ok \<Rightarrow> [Commit])"
    by blast
  from a g have "vals' = vals" by simp
  with insert_loop_values [OF l]
  show "list_all2 (\<lambda>item v. \<exists>given. values_dict (fst item) = Some given \<and>
                   cast_value_from_input py given (snd item) = Inr v)
        (filter (\<lambda>(col, dtype). values_dict col \<noteq> None) col_types) vals"
    by simp
next
  fix dtype
  assume m: "map_of col_types column = Some dtype"
  show "case cast_value_from_input py new_value dtype of
         Inl e \<Rightarrow>
           update_entry_validated py db table column row_id new_value col_types s = (Inl e, s)
       | Inr casted \<Rightarrow>
           (\<forall>id_col. fst (find_pk_column db table s) = Some id_col \<longrightarrow>
              log (snd (update_entry_validated py db table column row_id new_value col_types s)) =
                log s @ [Execute (Catalog PrimaryKeyQuery) [PyStr table],
                         Execute (Sql (update_query table column id_col))
                           [casted, PyStr row_id]] @
                (if isl (fst (update_entry_validated py db table column row_id new_value
                                col_types s))
                 then [] else [Commit]))"
  proof (cases "cast_value_from_input py new_value dtype")
    case (Inl e)
    with m show ?thesis by (simp add: update_cast_failure)
  next
    case (Inr casted)
    with m show ?thesis by (simp add: update_statement)
  qed
qed

theorem text_cast_strips_and_feeds_writes_witness:
  "is_text_type (lower ''character varying'') \<and>
   cast_value_from_input python_on_examples (Some '' Ann'') ''character varying'' =
     Inr (PyStr ''Ann'') \<and>
   cast_value_from_input python_on_examples (Some '' '') ''character varying'' = Inr PyNone \<and>
   cast_value_from_input python_on_examples (Some ([CHR 0xA0] @ ''Ann'' @ [CHR 0x85]))
     ''character varying'' = Inr (PyStr ''Ann'') \<and>
   map_of customers_types ''name'' = Some ''character varying'' \<and>
   fst (find_pk_column (shop_db accepts) ''customers'' fresh) = Some ''id'' \<and>
   log (snd (update_entry_validated python_on_examples (shop_db accepts) ''customers''
               ''name'' ''1'' (Some '' Bob '') customers_types fresh)) =
     [Execute (Catalog PrimaryKeyQuery) [PyStr ''customers''],
      Execute (Sql (update_query ''customers'' ''name'' ''id'')) [PyStr ''Bob'', PyStr ''1''],
      Commit] \<and>
   list_all2 (\<lambda>item v. \<exists>given. ann_values (fst item) = Some given \<and>
                cast_value_from_input python_on_examples given (snd item) = Inr v)
     [(''name'', ''character varying''), (''phone'', ''text'')] [PyStr ''Ann'', PyNone]"
proof -
  have h: "is_text_type (lower ''character varying'')"
    by (simp add: is_text_type_def string_ops)
  note t = text_cast_strips_and_feeds_writes [where data_type = "''character varying''"
      and py = python_on_examples and db = "shop_db accepts" and table = "''customers''"
      and column = "''name''" and row_id = "''1''" and new_value = "Some '' Bob ''"
      and col_types = customers_types and s = fresh and values_dict = ann_values]
  note c = t [THEN conjunct1, rule_format, OF h]
  have m: "map_of customers_types ''name'' = Some ''character varying''"
    by (simp add: customers_types_def)
  have b: "cast_value_from_input python_on_examples (Some '' Bob '') ''character varying'' =
      Inr (PyStr ''Bob'')"
    using c [of "'' Bob ''"] by (simp add: strip_def isspace_def)
  have k: "fst (find_pk_column (shop_db accepts) ''customers'' fresh) = Some ''id''"
    by (simp add: find_pk_column_def catalog_ops shop_defs)
  have ok: "\<not> isl (fst (update_entry_validated python_on_examples (shop_db accepts)
               ''customers'' ''name'' ''1'' (Some '' Bob '') customers_types fresh))"
    using m b
    by (simp add: update_entry_validated_def find_pk_column_def session_ops catalog_ops
        shop_defs)
  from t [THEN conjunct2, THEN conjunct2, rule_format, OF m] b k ok
  have u: "log (snd (update_entry_validated python_on_examples (shop_db accepts) ''customers''
               ''name'' ''1'' (Some '' Bob '') customers_types fresh)) =
     [Execute (Catalog PrimaryKeyQuery) [PyStr ''customers''],
      Execute (Sql (update_query ''customers'' ''name'' ''id'')) [PyStr ''Bob'', PyStr ''1''],
      Commit]"
    by (simp add: fresh_def)
  have f: "filter (\<lambda>(col, dtype). ann_values col \<noteq> None) customers_types =
      [(''name'', ''character varying''), (''phone'', ''text'')]"
    by (simp add: ann_values_def customers_types_def)
  from t [THEN conjunct2, THEN conjunct1, rule_format,
      of "Inr True"
         "\<lparr>log = [Execute (Sql (insert_query ''customers''
                                   [Identifier ''name'', Identifier ''phone''] [''%s'', ''%s'']))
                     [PyStr ''Ann'', PyNone],
                   Commit]\<rparr>"
         "Sql (insert_query ''customers'' [Identifier ''name'', Identifier ''phone'']
                 [''%s'', ''%s''])"
         "[PyStr ''Ann'', PyNone]" "[Commit]"]
    ann_insert f
  have i: "list_all2 (\<lambda>item v. \<exists>given. ann_values (fst item) = Some given \<and>
                cast_value_from_input python_on_examples given (snd item) = Inr v)
     [(''name'', ''character varying''), (''phone'', ''text'')] [PyStr ''Ann'', PyNone]"
    by (simp add: fresh_def)
  from h c [of "'' Ann''"] c [of "'' ''"] c [of "[CHR 0xA0] @ ''Ann'' @ [CHR 0x85]"] m k u i
  show ?thesis
    by (simp add: strip_def isspace_def)
qed

text \<open>
  Claim C6 as stated fails: the cast of \<^verbatim>\<open>" Ann"\<close> for a text column is
  \<^verbatim>\<open>"Ann"\<close>, not the raw string; and a filter bound does not go through the cast,
  which raises on \<^verbatim>\<open>"abc"\<close> for an integer column where the filter embeds \<^verbatim>\<open>0\<close>.
\<close>

theorem text_cast_is_not_identity:
  \<open>cast_value_from_input python_on_examples (Some '' Ann'') ''text'' = Inr (PyStr ''Ann'') \<and>
   '' Ann'' \<noteq> ''Ann'' \<and>
   cast_value_from_input python_on_examples (Some ''abc'') ''integer'' =
     Inl (ValueError (''invalid literal for int() with base 10: 'abc'' @ [squote])) \<and>
   build_filter_clause python_on_examples ''orders'' ''id'' ''integer'' ''abc'' [] =
     ''"orders"."id" >= 0''\<close>
  by (simp add: cast_value_from_input_def is_text_type_def is_integer_type_def string_ops
      python_on_examples_def build_filter_clause_def is_numeric_filter_type_def col_ref_def
      literal_for_numeric_def squote_def)

subsection \<open>Transaction boundaries\<close>

text \<open>
  What holds of every write: a commit is issued exactly when the operation
  succeeds. The three single-row operations never issue a rollback; bulk
  generation issues one exactly when the database rejects its INSERT.
\<close>

lemma insert_transaction:
  assumes "insert_entry_validated py db table values_dict col_types s = (r, s')"
  shows "\<exists>es. log s' = log s @ es \<and> Rollback \<notin> set es \<and> (Commit \<in> set es \<longleftrightarrow> \<not> isl r)"
  using assms
  by (auto simp: insert_entry_validated_def session_ops
           split: sum.splits prod.splits if_splits)

lemma update_transaction:
  assumes "update_entry_validated py db table column row_id new_value col_types s = (r, s')"
  shows "\<exists>es. log s' = log s @ es \<and> Rollback \<notin> set es \<and> (Commit \<in> set es \<longleftrightarrow> \<not> isl r)"
proof -
  obtain pk where pk: "find_pk_column db table s =
      (pk, sent (Catalog PrimaryKeyQuery) [PyStr table] s)"
    using find_pk_column_eq by blast
  from assms show ?thesis
    unfolding update_entry_validated_def pk
    by (auto simp: session_ops split: sum.splits option.splits)
qed

lemma delete_transaction:
  assumes "delete_entry db table row_id s = (r, s')"
  shows "\<exists>es. log s' = log s @ es \<and> Rollback \<notin> set es \<and> (Commit \<in> set es \<longleftrightarrow> \<not> isl r)"
proof -
  obtain pk where pk: "find_pk_column db table s =
      (pk, sent (Catalog PrimaryKeyQuery) [PyStr table] s)"
    using find_pk_column_eq by blast
  from assms show ?thesis
    unfolding delete_entry_def pk
    by (auto simp: session_ops split: sum.splits option.splits)
qed

subsection \<open>Synthetic data generation\<close>

lemma generate_loop_result:
  "generate_loop fk_map not_null_cols cols col_names select_exprs =
     (col_names @ map Identifier (filter (\<lambda>c. c \<in> set not_null_cols) (map fst cols)),
      select_exprs @ map (\<lambda>(c, d). gen_expr fk_map c (lower d))
                       (filter (\<lambda>(c, d). c \<in> set not_null_cols) cols))"
proof (induction cols arbitrary: col_names select_exprs)
  case Nil
  then show ?case by simp
next
  case (Cons item cols)
  then show ?case by (cases item) (simp add: Let_def)
qed

lemma get_columns_log:
  "get_columns db table s = (cols, s1) \<Longrightarrow>
   (cols = None \<and> log s1 = log s @ take 1 (generation_reads table)) \<or>
   (cols \<noteq> None \<and> log s1 = log s @ take 2 (generation_reads table))"
  by (auto simp: get_columns_def table_exists_def sent_def generation_reads_def
           split: if_splits)

lemma not_null_columns_names:
  "fst (not_null_columns db table s) = map ci_column_name (required_columns db table)"
  by (simp add: not_null_columns_def required_columns_def not_null_no_default_def)

lemma foreign_keys_of_session:
  "foreign_keys_of db table s =
     (fst (foreign_keys_of db table s), sent (Catalog ForeignKeysQuery) [PyStr table] s)"
  by (simp add: foreign_keys_of_def)

lemma foreign_keys_of_map:
  "fst (foreign_keys_of db table s) = fst (foreign_keys_of db table s0)"
  by (simp add: foreign_keys_of_def)

lemma not_null_columns_session:
  "not_null_columns db table s =
     (map ci_column_name (required_columns db table),
      sent (Catalog NotNullNoDefaultQuery) [PyStr table] s)"
  by (simp add: not_null_columns_def required_columns_def not_null_no_default_def)

lemma generate_rows_sql_found:
  assumes "get_columns db table s = (Some (c # cs), s1)"
  shows "generate_rows_sql db table count s =
    (let fk_map = fst (foreign_keys_of db table s);
         not_null_cols = map ci_column_name (required_columns db table);
         s3 = sent (Catalog NotNullNoDefaultQuery) [PyStr table]
                (sent (Catalog ForeignKeysQuery) [PyStr table] s1);
         col_names = filter (\<lambda>c. c \<in> set not_null_cols) (map fst (c # cs));
         select_exprs = map (\<lambda>(c, d). gen_expr fk_map c (lower d))
                          (filter (\<lambda>(c, d). c \<in> set not_null_cols) (c # cs));
         query = generate_query table (map Identifier col_names) select_exprs
     in if col_names = [] then
          (Inl (ValueError ''No columns to insert (all are PK/DEFAULT)''), s3)
        else
          (case db_execute db query [PyInt count] of
             Inl m \<Rightarrow> (Inl (DatabaseError m), rollback (sent (Sql query) [PyInt count] s3))
           | Inr n \<Rightarrow> (Inr count, commit (sent (Sql query) [PyInt count] s3))))"
proof -
  have fk: "foreign_keys_of db table s1 =
      (fst (foreign_keys_of db table s), sent (Catalog ForeignKeysQuery) [PyStr table] s1)"
    using foreign_keys_of_session [of db table s1] foreign_keys_of_map [of db table s1 s]
    by simp
  show ?thesis
    unfolding generate_rows_sql_def assms
    by (simp only: fk not_null_columns_session generate_loop_result prod.case option.case
          list.case Let_def append_Nil execute_def map_is_Nil_conv split: sum.split)
       (simp split: sum.split)
qed

lemma required_columns_rows:
  "ci \<in> set (required_columns db table) \<Longrightarrow>
   ci \<in> set (db_columns db) \<and> ci_table_schema ci = ''public'' \<and> ci_table_name ci = table \<and>
   ci_is_nullable ci = ''NO'' \<and> ci_column_default ci = None"
  by (simp add: required_columns_def)

lemma get_columns_found_session:
  "get_columns db table s = (Some cols, s1) \<Longrightarrow>
   s1 = s\<lparr>log := log s @ take 2 (generation_reads table)\<rparr>"
  by (auto simp: get_columns_def table_exists_def sent_def generation_reads_def
           split: if_splits)

lemma get_columns_missing_session:
  "get_columns db table s = (None, s1) \<Longrightarrow>
   s1 = s\<lparr>log := log s @ take 1 (generation_reads table)\<rparr>"
  by (auto simp: get_columns_def table_exists_def sent_def generation_reads_def
           split: if_splits)

text \<open>
  Claim C2, as amended. For a table that is found and has columns, every column
  in the generated column list is a NOT NULL column of that table without a
  default in the catalog, so a nullable column and a column with a default
  (a serial key has one) are never included; primary-key and identity status
  are not consulted. If the list is empty the operation fails with
  \<^verbatim>\<open>ValueError("No columns to insert (all are PK/DEFAULT)")\<close> after the four
  catalog reads, with no INSERT executed and nothing committed; otherwise the
  one bulk INSERT over exactly that list follows the reads, then a commit or a
  rollback. A missing table and a table without columns fail earlier with
  \<^verbatim>\<open>ValueError("Table not found or has no columns")\<close>.
\<close>

theorem generated_columns_are_required:
  "(\<forall>c cs s1. get_columns db table s = (Some (c # cs), s1) \<longrightarrow>
      (\<exists>col_names select_exprs.
         (\<forall>name \<in> set col_names. \<exists>ci \<in> set (db_columns db).
             ci_table_schema ci = ''public'' \<and> ci_table_name ci = table \<and>
             ci_column_name ci = name \<and> ci_is_nullable ci = ''NO'' \<and>
             ci_column_default ci = None) \<and>
         length select_exprs = length col_names \<and>
         (col_names = [] \<longrightarrow>
            generate_rows_sql db table count s =
              (Inl (ValueError ''No columns to insert (all are PK/DEFAULT)''),
               s\<lparr>log := log s @ generation_reads table\<rparr>)) \<and>
         (col_names \<noteq> [] \<longrightarrow>
            (\<exists>r final. (final = Commit \<or> final = Rollback) \<and>
               generate_rows_sql db table count s =
                 (r, s\<lparr>log := log s @ generation_reads table @
                      [Execute (Sql (generate_query table (map Identifier col_names)
                                       select_exprs)) [PyInt count],
                       final]\<rparr>))))) \<and>
   (\<forall>s1. get_columns db table s = (None, s1) \<or> get_columns db table s = (Some [], s1) \<longrightarrow>
      generate_rows_sql db table count s =
        (Inl (ValueError ''Table not found or has no columns''), s1) \<and>
      (\<exists>k. s1 = s\<lparr>log := log s @ take k (generation_reads table)\<rparr>))"
proof (intro conjI allI impI)
  fix c cs s1
  assume g: "get_columns db table s = (Some (c # cs), s1)"
  define nn where "nn = map ci_column_name (required_columns db table)"
  define fk where "fk = fst (foreign_keys_of db table s)"
  define cn where "cn = filter (\<lambda>c. c \<in> set nn) (map fst (c # cs))"
  define se where "se = map (\<lambda>(c, d). gen_expr fk c (lower d))
                          (filter (\<lambda>(c, d). c \<in> set nn) (c # cs))"
  define q where "q = generate_query table (map Identifier cn) se"
  have s1: "s1 = s\<lparr>log := log s @ take 2 (generation_reads table)\<rparr>"
    by (rule get_columns_found_session [OF g])
  have run: "generate_rows_sql db table count s =
      (if cn = [] then
         (Inl (ValueError ''No columns to insert (all are PK/DEFAULT)''),
          sent (Catalog NotNullNoDefaultQuery) [PyStr table]
            (sent (Catalog ForeignKeysQuery) [PyStr table] s1))
       else
         (case db_execute db q [PyInt count] of
            Inl m \<Rightarrow> (Inl (DatabaseError m),
                      rollback (sent (Sql q) [PyInt count]
                        (sent (Catalog NotNullNoDefaultQuery) [PyStr table]
                          (sent (Catalog ForeignKeysQuery) [PyStr table] s1))))
          | Inr n \<Rightarrow> (Inr count,
                      commit (sent (Sql q) [PyInt count]
                        (sent (Catalog NotNullNoDefaultQuery) [PyStr table]
                          (sent (Catalog ForeignKeysQuery) [PyStr table] s1))))))"
    unfolding generate_rows_sql_found [OF g] nn_def fk_def cn_def se_def q_def Let_def
    by (rule refl)
  have len: "length se = length cn"
    unfolding se_def cn_def
    by (induction "c # cs" arbitrary: c cs) (simp, auto simp: filter_map comp_def case_prod_unfold)
  have sub: "\<forall>name \<in> set cn. \<exists>ci \<in> set (db_columns db).
             ci_table_schema ci = ''public'' \<and> ci_table_name ci = table \<and>
             ci_column_name ci = name \<and> ci_is_nullable ci = ''NO'' \<and>
             ci_column_default ci = None"
  proof
    fix name
    assume "name \<in> set cn"
    then have "name \<in> set nn" unfolding cn_def set_filter by blast
    then obtain ci where "ci \<in> set (required_columns db table)" "ci_column_name ci = name"
      unfolding nn_def by auto
    with required_columns_rows [of ci db table]
    show "\<exists>ci \<in> set (db_columns db).
             ci_table_schema ci = ''public'' \<and> ci_table_name ci = table \<and>
             ci_column_name ci = name \<and> ci_is_nullable ci = ''NO'' \<and>
             ci_column_default ci = None"
      by blast
  qed
  have empty: "cn = [] \<longrightarrow>
            generate_rows_sql db table count s =
              (Inl (ValueError ''No columns to insert (all are PK/DEFAULT)''),
               s\<lparr>log := log s @ generation_reads table\<rparr>)"
    by (simp add: run s1 sent_def generation_reads_def)
  have full: "cn \<noteq> [] \<longrightarrow>
            (\<exists>r final. (final = Commit \<or> final = Rollback) \<and>
               generate_rows_sql db table count s =
                 (r, s\<lparr>log := log s @ generation_reads table @
                      [Execute (Sql (generate_query table (map Identifier cn) se))
                         [PyInt count],
                       final]\<rparr>))"
    by (cases "db_execute db q [PyInt count]")
       (auto simp: run s1 sent_def commit_def rollback_def generation_reads_def
          q_def [symmetric])
  from sub len empty full
  show "\<exists>col_names select_exprs.
         (\<forall>name \<in> set col_names. \<exists>ci \<in> set (db_columns db).
             ci_table_schema ci = ''public'' \<and> ci_table_name ci = table \<and>
             ci_column_name ci = name \<and> ci_is_nullable ci = ''NO'' \<and>
             ci_column_default ci = None) \<and>
         length select_exprs = length col_names \<and>
         (col_names = [] \<longrightarrow>
            generate_rows_sql db table count s =
              (Inl (ValueError ''No columns to insert (all are PK/DEFAULT)''),
               s\<lparr>log := log s @ generation_reads table\<rparr>)) \<and>
         (col_names \<noteq> [] \<longrightarrow>
            (\<exists>r final. (final = Commit \<or> final = Rollback) \<and>
               generate_rows_sql db table count s =
                 (r, s\<lparr>log := log s @ generation_reads table @
                      [Execute (Sql (generate_query table (map Identifier col_names)
                                       select_exprs)) [PyInt count],
                       final]\<rparr>)))"
    by (intro exI [of _ cn] exI [of _ se] conjI)
next
  fix s1
  assume "get_columns db table s = (None, s1) \<or> get_columns db table s = (Some [], s1)"
  then show "generate_rows_sql db table count s =
        (Inl (ValueError ''Table not found or has no columns''), s1)"
    by (auto simp: generate_rows_sql_def)
next
  fix s1
  assume "get_columns db table s = (None, s1) \<or> get_columns db table s = (Some [], s1)"
  then show "\<exists>k. s1 = s\<lparr>log := log s @ take k (generation_reads table)\<rparr>"
    using get_columns_found_session [of db table s "[]" s1]
      get_columns_missing_session [of db table s s1]
    by blast
qed

lemmas generation_eval =
  generate_rows_sql_def get_columns_def table_exists_def foreign_keys_of_def
  not_null_columns_def not_null_no_default_def gen_expr_def generation_reads_def
  session_ops catalog_ops shop_defs string_ops

lemma customers_generation:
  "generate_rows_sql (shop_db accepts) ''customers'' 3 fresh =
     (Inr 3,
      \<lparr>log = generation_reads ''customers'' @
         [Execute (Sql (generate_query ''customers'' [Identifier ''id'', Identifier ''name'']
                          [SQL ''floor(random()*10000)::int'',
                           SQL ''substring(md5(random()::text),1,10)'']))
            [PyInt 3],
          Commit]\<rparr>)"
  by (simp add: generation_eval)

lemma settings_generation:
  "generate_rows_sql (shop_db accepts) ''settings'' 3 fresh =
     (Inl (ValueError ''No columns to insert (all are PK/DEFAULT)''),
      \<lparr>log = generation_reads ''settings''\<rparr>)"
  by (simp add: generation_eval)

lemma settings_columns:
  "get_columns (shop_db accepts) ''settings'' fresh =
     (Some [(''id'', ''integer''), (''note'', ''text'')],
      \<lparr>log = take 2 (generation_reads ''settings'')\<rparr>)"
  by (simp add: generation_eval)

theorem generated_columns_are_required_witness:
  "get_columns (shop_db accepts) ''settings'' fresh =
     (Some [(''id'', ''integer''), (''note'', ''text'')],
      \<lparr>log = take 2 (generation_reads ''settings'')\<rparr>) \<and>
   generate_rows_sql (shop_db accepts) ''settings'' 3 fresh =
     (Inl (ValueError ''No columns to insert (all are PK/DEFAULT)''),
      \<lparr>log = generation_reads ''settings''\<rparr>) \<and>
   generate_rows_sql (shop_db accepts) ''customers'' 3 fresh =
     (Inr 3,
      \<lparr>log = generation_reads ''customers'' @
         [Execute (Sql (generate_query ''customers'' [Identifier ''id'', Identifier ''name'']
                          [SQL ''floor(random()*10000)::int'',
                           SQL ''substring(md5(random()::text),1,10)'']))
            [PyInt 3],
          Commit]\<rparr>) \<and>
   get_columns (shop_db accepts) ''scratch'' fresh =
     (Some [], \<lparr>log = take 2 (generation_reads ''scratch'')\<rparr>) \<and>
   generate_rows_sql (shop_db accepts) ''scratch'' 3 fresh =
     (Inl (ValueError ''Table not found or has no columns''),
      \<lparr>log = take 2 (generation_reads ''scratch'')\<rparr>)"
proof -
  have g: "get_columns (shop_db accepts) ''scratch'' fresh =
     (Some [], \<lparr>log = take 2 (generation_reads ''scratch'')\<rparr>)"
    by (simp add: generation_eval)
  from generated_columns_are_required [of "shop_db accepts" "''scratch''" fresh 3,
      THEN conjunct2, rule_format, of "\<lparr>log = take 2 (generation_reads ''scratch'')\<rparr>"] g
  have "generate_rows_sql (shop_db accepts) ''scratch'' 3 fresh =
     (Inl (ValueError ''Table not found or has no columns''),
      \<lparr>log = take 2 (generation_reads ''scratch'')\<rparr>)"
    by blast
  with g settings_columns settings_generation customers_generation show ?thesis
    by simp
qed

text \<open>
  Claim C2 as stated fails: \<^verbatim>\<open>customers.id\<close> is the table's identity primary key,
  the catalog reports it NOT NULL with no default, and the generated column
  list includes it.
\<close>

theorem identity_primary_key_is_generated:
  "fst (find_pk_column (shop_db accepts) ''customers'' fresh) = Some ''id'' \<and>
   mk_column ''customers'' 1 ''id'' ''integer'' ''NO'' None ''YES''
     \<in> set (db_columns (shop_db accepts)) \<and>
   ci_is_identity (mk_column ''customers'' 1 ''id'' ''integer'' ''NO'' None ''YES'') = ''YES'' \<and>
   generate_rows_sql (shop_db accepts) ''customers'' 3 fresh =
     (Inr 3,
      \<lparr>log = generation_reads ''customers'' @
         [Execute (Sql (generate_query ''customers'' [Identifier ''id'', Identifier ''name'']
                          [SQL ''floor(random()*10000)::int'',
                           SQL ''substring(md5(random()::text),1,10)'']))
            [PyInt 3],
          Commit]\<rparr>)"
  by (simp add: generation_eval find_pk_column_def)

subsection \<open>Generation rules\<close>

text \<open>
  Claim C3, as amended. For a column that is not a foreign key, whose name has
  no \<^verbatim>\<open>email\<close> in it and whose type is none of the integer, decimal, boolean,
  timestamp and date types, the generation expression is the ten-character
  \<^verbatim>\<open>md5\<close> token when the type name contains \<^verbatim>\<open>character\<close> or \<^verbatim>\<open>text\<close>, and
  the literal \<^verbatim>\<open>NULL\<close> for every other (unknown) type. The expressions of the
  statement are these, one per selected column.
\<close>

theorem text_gets_token_unknown_gets_null:
  assumes "fk_map col_name = None"
    and "\<not> contains ''email'' (lower col_name)"
    and "\<not> (startswith dt ''integer'' \<or> dt \<in> set [''bigint'', ''smallint''])"
    and "\<not> (startswith dt ''numeric'' \<or> dt \<in> set [''real'', ''double precision''])"
    and "dt \<noteq> ''boolean''"
    and "\<not> contains ''timestamp'' dt"
    and "\<not> contains ''date'' dt"
  shows "gen_expr fk_map col_name dt =
           (if contains ''character'' dt \<or> contains ''text'' dt
            then SQL ''substring(md5(random()::text),1,10)'' else SQL ''NULL'') \<and>
         snd (generate_loop fk_map not_null_cols cols [] []) =
           map (\<lambda>(c, d). gen_expr fk_map c (lower d))
             (filter (\<lambda>(c, d). c \<in> set not_null_cols) cols)"
  using assms by (simp add: gen_expr_def generate_loop_result)

theorem text_gets_token_unknown_gets_null_witness:
  "fst (foreign_keys_of (shop_db accepts) ''orders'' fresh) ''token'' = None \<and>
   \<not> contains ''email'' (lower ''token'') \<and>
   gen_expr (fst (foreign_keys_of (shop_db accepts) ''orders'' fresh)) ''token''
     ''character varying'' = SQL ''substring(md5(random()::text),1,10)'' \<and>
   gen_expr (fst (foreign_keys_of (shop_db accepts) ''orders'' fresh)) ''token''
     ''text'' = SQL ''substring(md5(random()::text),1,10)'' \<and>
   gen_expr (fst (foreign_keys_of (shop_db accepts) ''orders'' fresh)) ''token''
     ''uuid'' = SQL ''NULL''"
proof -
  have f: "fst (foreign_keys_of (shop_db accepts) ''orders'' fresh) ''token'' = None"
    by (simp add: foreign_keys_of_def catalog_ops shop_defs)
  have e: "\<not> contains ''email'' (lower ''token'')"
    by (simp add: string_ops)
  note t = text_gets_token_unknown_gets_null
    [where fk_map = "fst (foreign_keys_of (shop_db accepts) ''orders'' fresh)"
       and col_name = "''token''", OF f e, THEN conjunct1]
  have a: "gen_expr (fst (foreign_keys_of (shop_db accepts) ''orders'' fresh)) ''token''
     ''character varying'' = SQL ''substring(md5(random()::text),1,10)''"
    using t [of "''character varying''"] by (simp add: startswith_def)
  have b: "gen_expr (fst (foreign_keys_of (shop_db accepts) ''orders'' fresh)) ''token''
     ''text'' = SQL ''substring(md5(random()::text),1,10)''"
    using t [of "''text''"] by (simp add: startswith_def)
  have c: "gen_expr (fst (foreign_keys_of (shop_db accepts) ''orders'' fresh)) ''token''
     ''uuid'' = SQL ''NULL''"
    using t [of "''uuid''"] by (simp add: startswith_def)
  from f e a b c show ?thesis by simp
qed

text \<open>
  Claim C3 as stated fails: \<^verbatim>\<open>orders.token\<close> has the unknown type \<^verbatim>\<open>uuid\<close>, is
  selected because it is NOT NULL without a default, and its expression in the
  bulk INSERT is \<^verbatim>\<open>NULL\<close>.
\<close>

theorem unknown_type_generates_null:
  "get_columns (shop_db rejects) ''orders'' fresh =
     (Some [(''id'', ''integer''), (''customer_id'', ''integer''), (''amount'', ''numeric''),
            (''note'', ''text''), (''token'', ''uuid'')],
      \<lparr>log = take 2 (generation_reads ''orders'')\<rparr>) \<and>
   generate_rows_sql (shop_db rejects) ''orders'' 5 fresh =
     (Inl (DatabaseError ''violates a constraint''),
      \<lparr>log = generation_reads ''orders'' @
         [Execute (Sql (generate_query ''orders''
                          [Identifier ''customer_id'', Identifier ''amount'', Identifier ''token'']
                          [Composed [SQL ''(SELECT '', Identifier ''id'', SQL '' FROM '',
                                     Identifier ''customers'',
                                     SQL '' ORDER BY random() LIMIT 1)''],
                           SQL ''round(random()*10000::numeric,2)'',
                           SQL ''NULL'']))
            [PyInt 5],
          Rollback]\<rparr>)"
  by (simp add: generation_eval)

subsection \<open>Failed writes\<close>

text \<open>
  Claim C1. When the database rejects the statement, \<^verbatim>\<open>insert_entry_validated\<close>,
  \<^verbatim>\<open>update_entry_validated\<close> and \<^verbatim>\<open>delete_entry\<close> let the error through with the
  statement as the session's last event: no rollback is issued. Only
  \<^verbatim>\<open>generate_rows_sql\<close> rolls back before it re-raises.
\<close>

theorem failed_write_is_not_rolled_back:
  "insert_entry_validated python_on_examples (shop_db rejects) ''customers'' ann_values
     customers_types fresh =
     (Inl (DatabaseError ''violates a constraint''),
      \<lparr>log = [Execute (Sql (insert_query ''customers''
                              [Identifier ''name'', Identifier ''phone''] [''%s'', ''%s'']))
                [PyStr ''Ann'', PyNone]]\<rparr>) \<and>
   update_entry_validated python_on_examples (shop_db rejects) ''customers'' ''name'' ''1''
     (Some ''Bob'') customers_types fresh =
     (Inl (DatabaseError ''violates a constraint''),
      \<lparr>log = [Execute (Catalog PrimaryKeyQuery) [PyStr ''customers''],
              Execute (Sql (update_query ''customers'' ''name'' ''id''))
                [PyStr ''Bob'', PyStr ''1'']]\<rparr>) \<and>
   delete_entry (shop_db rejects) ''customers'' ''1'' fresh =
     (Inl (DatabaseError ''violates a constraint''),
      \<lparr>log = [Execute (Catalog PrimaryKeyQuery) [PyStr ''customers''],
              Execute (Sql (delete_query ''customers'' ''id'')) [PyStr ''1'']]\<rparr>) \<and>
   generate_rows_sql (shop_db rejects) ''customers'' 3 fresh =
     (Inl (DatabaseError ''violates a constraint''),
      \<lparr>log = generation_reads ''customers'' @
         [Execute (Sql (generate_query ''customers'' [Identifier ''id'', Identifier ''name'']
                          [SQL ''floor(random()*10000)::int'',
                           SQL ''substring(md5(random()::text),1,10)'']))
            [PyInt 3],
          Rollback]\<rparr>)"
  by (simp add: generation_eval insert_entry_validated_def update_entry_validated_def
      delete_entry_def find_pk_column_def ann_values_def customers_types_def
      cast_value_from_input_def is_text_type_def)

lemma generate_transaction:
  assumes "generate_rows_sql db table count s = (r, s')"
  shows "\<exists>es. log s' = log s @ es \<and> (Commit \<in> set es \<longleftrightarrow> \<not> isl r) \<and>
           (Rollback \<in> set es \<longleftrightarrow> (\<exists>m. r = Inl (DatabaseError m)))"
proof -
  obtain cols s1 where g: "get_columns db table s = (cols, s1)"
    by (cases "get_columns db table s")
  show ?thesis
  proof (cases "\<exists>c cs. cols = Some (c # cs)")
    case True
    then obtain c cs where c: "cols = Some (c # cs)" by blast
    from g c have s1: "s1 = s\<lparr>log := log s @ take 2 (generation_reads table)\<rparr>"
      by (simp add: get_columns_found_session)
    from assms show ?thesis
      unfolding generate_rows_sql_found [OF g [unfolded c]] Let_def s1
      by (auto simp: session_ops generation_reads_def split: if_splits sum.splits)
  next
    case False
    have "cols = None \<or> cols = Some []"
    proof (cases cols)
      case None
      then show ?thesis by simp
    next
      case (Some xs)
      with False show ?thesis by (cases xs) auto
    qed
    with g assms get_columns_log [OF g] show ?thesis
      by (auto simp: generate_rows_sql_def generation_reads_def)
  qed
qed

end
